theory Spec2Isabelle
  imports Main "HOL-Library.Word"
begin

unbundle bit_operations_syntax

section \<open>Python values and dictionaries\<close>

text \<open>
  The values that flow through the caches of \<^verbatim>\<open>resume_parser.py\<close> are Python objects:
  extracted text (\<^verbatim>\<open>str\<close>), whatever \<^verbatim>\<open>json.loads\<close> returns, and the error object
  \<^verbatim>\<open>{"error": str(e)}\<close>. \<^verbatim>\<open>None\<close> is a value of its own, because the code tests
  \<^verbatim>\<open>is not None\<close> on what a cache lookup returns. Floating-point numbers are left out:
  no claim looks inside a number.
\<close>

datatype pyval =
    PNone
  | PBool bool
  | PInt int
  | PStr string
  | PList "pyval list"
  | PDict "(string \<times> pyval) list"

text \<open>
  A Python \<^verbatim>\<open>dict\<close> keeps its keys in insertion order, and \<^verbatim>\<open>_set_cache\<close> relies on that
  order when it evicts. A dictionary is therefore an association list: a new key goes to
  the end, an existing key keeps its place.
\<close>

type_synonym 'v dict = "(string \<times> 'v) list"

fun dict_set :: "'v dict \<Rightarrow> string \<Rightarrow> 'v \<Rightarrow> 'v dict" where
  "dict_set [] k v = [(k, v)]"
| "dict_set ((k', v') # d) k v =
     (if k' = k then (k, v) # d else (k', v') # dict_set d k v)"

definition dict_del :: "'v dict \<Rightarrow> string \<Rightarrow> 'v dict" where
  "dict_del d k = filter (\<lambda>kv. fst kv \<noteq> k) d"

definition dict_get :: "pyval dict \<Rightarrow> string \<Rightarrow> pyval" where
  \<comment> \<open>\<^verbatim>\<open>d.get(k)\<close>: \<^verbatim>\<open>None\<close> for a missing key\<close>
  "dict_get d k = (case map_of d k of None \<Rightarrow> PNone | Some v \<Rightarrow> v)"

section \<open>The layered cache\<close>

text \<open>
  The process-wide state of \<^verbatim>\<open>resume_parser.py\<close>: whether \<^verbatim>\<open>redis_client\<close> is set, what
  the remote store holds, and the in-process dictionary \<^verbatim>\<open>_cache\<close>. The remote store
  holds values, not pickled bytes: \<^verbatim>\<open>pickle.loads (pickle.dumps v)\<close> is taken to be
  \<^verbatim>\<open>v\<close>, and a pickled value is never the empty byte string, so \<^verbatim>\<open>if cached:\<close> holds for
  every entry that exists. Expiry of remote entries (seven days) and writes of other
  processes are outside the model.

  Three fields are bookkeeping of the model, not of the program: \<open>redis_ops\<close> counts
  the remote operations attempted so far, \<open>llm_calls\<close> counts the completion requests,
  and \<open>calls\<close> records which stage functions and external collaborators ran.
\<close>

datatype event =
    StageExtract
  | StageTransform
  | CallPdfText
  | CallPdfOcr
  | CallDocx
  | CallImageOcr
  | CallCompletion

record state =
  redis_client :: bool
  redis_store :: "string \<rightharpoonup> pyval"
  redis_ops :: nat
  cache :: "pyval dict"
  llm_calls :: nat
  calls :: "event list"

type_synonym byte = "8 word"
type_synonym exn = string

text \<open>
  The collaborators the code calls but does not define. Each remote operation sits in
  a \<^verbatim>\<open>try\<close> whose handler swallows every exception; \<open>redis_raises e n\<close> says whether
  the \<open>n\<close>-th remote operation of the process raises (timeout, connection or pickling
  error). The extraction libraries return their raw output or raise; the completion
  service may answer differently on each request.
\<close>

record env =
  redis_raises :: "nat \<Rightarrow> bool"
  pdf_pages_text :: "byte list \<Rightarrow> exn + string option list"
  pdf_pages_ocr :: "byte list \<Rightarrow> exn + string list list"
  docx_paragraphs :: "byte list \<Rightarrow> exn + string list"
  image_readtext :: "byte list \<Rightarrow> exn + string list"
  completion :: "nat \<Rightarrow> string \<Rightarrow> exn + string"
  json_loads :: "string \<Rightarrow> exn + pyval"

definition max_cache_size :: nat where
  "max_cache_size = 1000"

definition get_from_cache :: "env \<Rightarrow> string \<Rightarrow> state \<Rightarrow> pyval \<times> state" where
  "get_from_cache e key s =
     (if redis_client s then
        (let s' = s\<lparr>redis_ops := Suc (redis_ops s)\<rparr> in
         if redis_raises e (redis_ops s) then (dict_get (cache s) key, s')
         else (case redis_store s key of
                 Some v \<Rightarrow> (v, s')
               | None \<Rightarrow> (dict_get (cache s) key, s')))
      else (dict_get (cache s) key, s))"

definition evict_oldest :: "pyval dict \<Rightarrow> pyval dict" where
  \<comment> \<open>\<^verbatim>\<open>for k in list(_cache.keys())[:_max_cache_size // 4]: del _cache[k]\<close>\<close>
  "evict_oldest d = foldl dict_del d (take (max_cache_size div 4) (map fst d))"

definition remote_setex :: "env \<Rightarrow> string \<Rightarrow> pyval \<Rightarrow> state \<Rightarrow> state" where
  "remote_setex e key v s =
     (if redis_client s then
        (if redis_raises e (redis_ops s) then s\<lparr>redis_ops := Suc (redis_ops s)\<rparr>
         else s\<lparr>redis_ops := Suc (redis_ops s), redis_store := (redis_store s)(key \<mapsto> v)\<rparr>)
      else s)"

definition set_cache :: "env \<Rightarrow> string \<Rightarrow> pyval \<Rightarrow> state \<Rightarrow> state" where
  "set_cache e key v s =
     (let s1 = remote_setex e key v s;
          c1 = (if max_cache_size \<le> length (cache s1) then evict_oldest (cache s1)
                else cache s1)
      in s1\<lparr>cache := dict_set c1 key v\<rparr>)"

definition set_all :: "env \<Rightarrow> (string \<times> pyval) list \<Rightarrow> state \<Rightarrow> state" where
  \<comment> \<open>a sequence of \<^verbatim>\<open>_set_cache\<close> calls, in order\<close>
  "set_all e kvs s = foldl (\<lambda>s kv. set_cache e (fst kv) (snd kv) s) s kvs"

section \<open>Content fingerprints\<close>

text \<open>
  \<^verbatim>\<open>_get_file_hash\<close> and \<^verbatim>\<open>_get_text_hash\<close> are the hexadecimal MD5 digest of the
  bytes. \<^verbatim>\<open>hashlib.md5\<close> is the algorithm of RFC 1321: the message is padded to a
  multiple of 64 bytes, and each block of sixteen little-endian 32-bit words is mixed
  into four 32-bit registers in 64 steps.
\<close>

type_synonym u32 = "32 word"

definition md5_s :: "nat list" where
  "md5_s = [7, 12, 17, 22, 7, 12, 17, 22, 7, 12, 17, 22, 7, 12, 17, 22,
            5, 9, 14, 20, 5, 9, 14, 20, 5, 9, 14, 20, 5, 9, 14, 20,
            4, 11, 16, 23, 4, 11, 16, 23, 4, 11, 16, 23, 4, 11, 16, 23,
            6, 10, 15, 21, 6, 10, 15, 21, 6, 10, 15, 21, 6, 10, 15, 21]"

definition md5_K :: "u32 list" where
  "md5_K = [0xd76aa478, 0xe8c7b756, 0x242070db, 0xc1bdceee,
            0xf57c0faf, 0x4787c62a, 0xa8304613, 0xfd469501,
            0x698098d8, 0x8b44f7af, 0xffff5bb1, 0x895cd7be,
            0x6b901122, 0xfd987193, 0xa679438e, 0x49b40821,
            0xf61e2562, 0xc040b340, 0x265e5a51, 0xe9b6c7aa,
            0xd62f105d, 0x02441453, 0xd8a1e681, 0xe7d3fbc8,
            0x21e1cde6, 0xc33707d6, 0xf4d50d87, 0x455a14ed,
            0xa9e3e905, 0xfcefa3f8, 0x676f02d9, 0x8d2a4c8a,
            0xfffa3942, 0x8771f681, 0x6d9d6122, 0xfde5380c,
            0xa4beea44, 0x4bdecfa9, 0xf6bb4b60, 0xbebfbc70,
            0x289b7ec6, 0xeaa127fa, 0xd4ef3085, 0x04881d05,
            0xd9d4d039, 0xe6db99e5, 0x1fa27cf8, 0xc4ac5665,
            0xf4292244, 0x432aff97, 0xab9423a7, 0xfc93a039,
            0x655b59c3, 0x8f0ccc92, 0xffeff47d, 0x85845dd1,
            0x6fa87e4f, 0xfe2ce6e0, 0xa3014314, 0x4e0811a1,
            0xf7537e82, 0xbd3af235, 0x2ad7d2bb, 0xeb86d391]"

definition rotl32 :: "u32 \<Rightarrow> nat \<Rightarrow> u32" where
  "rotl32 x n = push_bit n x OR drop_bit (32 - n) x"

fun le_word :: "byte list \<Rightarrow> u32" where
  "le_word [] = 0"
| "le_word (b # bs) = ucast b OR push_bit 8 (le_word bs)"

fun le_bytes :: "nat \<Rightarrow> nat \<Rightarrow> byte list" where
  "le_bytes 0 v = []"
| "le_bytes (Suc k) v = of_nat (v mod 256) # le_bytes k (v div 256)"

fun chunks :: "nat \<Rightarrow> 'a list \<Rightarrow> 'a list list" where
  "chunks n [] = []"
| "chunks n (x # xs) =
     (if n = 0 then [] else take n (x # xs) # chunks n (drop n (x # xs)))"

definition md5_pad :: "byte list \<Rightarrow> byte list" where
  "md5_pad m = m @ [0x80] @ replicate ((119 - length m mod 64) mod 64) 0
                 @ le_bytes 8 ((8 * length m) mod 2 ^ 64)"

type_synonym md5_state = "u32 \<times> u32 \<times> u32 \<times> u32"

definition md5_step :: "u32 list \<Rightarrow> md5_state \<Rightarrow> nat \<Rightarrow> md5_state" where
  "md5_step M st i = (case st of (A, B, C, D) \<Rightarrow>
     let F = (if i < 16 then (B AND C) OR (NOT B AND D)
              else if i < 32 then (D AND B) OR (NOT D AND C)
              else if i < 48 then B XOR C XOR D
              else C XOR (B OR NOT D));
         g = (if i < 16 then i
              else if i < 32 then (5 * i + 1) mod 16
              else if i < 48 then (3 * i + 5) mod 16
              else (7 * i) mod 16);
         F' = F + A + md5_K ! i + M ! g
     in (D, B + rotl32 F' (md5_s ! i), B, C))"

definition md5_block :: "md5_state \<Rightarrow> byte list \<Rightarrow> md5_state" where
  "md5_block st blk = (case st of (a0, b0, c0, d0) \<Rightarrow>
     case foldl (md5_step (map le_word (chunks 4 blk))) st [0..<64] of
       (A, B, C, D) \<Rightarrow> (a0 + A, b0 + B, c0 + C, d0 + D))"

definition md5_init :: md5_state where
  "md5_init = (0x67452301, 0xefcdab89, 0x98badcfe, 0x10325476)"

definition md5 :: "byte list \<Rightarrow> byte list" where
  "md5 m = (case foldl md5_block md5_init (chunks 64 (md5_pad m)) of
              (a, b, c, d) \<Rightarrow> concat (map (\<lambda>w. le_bytes 4 (unat w)) [a, b, c, d]))"

definition hex_digit :: "nat \<Rightarrow> char" where
  "hex_digit n = ''0123456789abcdef'' ! n"

definition hexdigest :: "byte list \<Rightarrow> string" where
  "hexdigest bs =
     concat (map (\<lambda>b. [hex_digit (unat b div 16), hex_digit (unat b mod 16)]) bs)"

text \<open>
  A \<open>char\<close> is a code point below 256. \<^verbatim>\<open>str.encode('utf-8')\<close> writes a code point
  below 128 as one byte and the others as two.
\<close>

definition utf8_char :: "char \<Rightarrow> byte list" where
  "utf8_char c = (let n = (of_char c :: nat) in
     if n < 128 then [of_nat n] else [of_nat (192 + n div 64), of_nat (128 + n mod 64)])"

definition encode_utf8 :: "string \<Rightarrow> byte list" where
  "encode_utf8 t = concat (map utf8_char t)"

definition get_file_hash :: "byte list \<Rightarrow> string" where
  "get_file_hash content = hexdigest (md5 content)"

definition get_text_hash :: "string \<Rightarrow> string" where
  "get_text_hash text = hexdigest (md5 (encode_utf8 text))"

section \<open>String helpers of the standard library\<close>

definition is_space :: "char \<Rightarrow> bool" where
  \<comment> \<open>\<^verbatim>\<open>str.isspace\<close> on code points below 256\<close>
  "is_space c = (let n = (of_char c :: nat) in
     (9 \<le> n \<and> n \<le> 13) \<or> (28 \<le> n \<and> n \<le> 32) \<or> n = 133 \<or> n = 160)"

definition strip :: "string \<Rightarrow> string" where
  "strip t = rev (dropWhile is_space (rev (dropWhile is_space t)))"

definition lower_char :: "char \<Rightarrow> char" where
  \<comment> \<open>\<^verbatim>\<open>str.lower\<close> on code points below 256\<close>
  "lower_char c = (let n = (of_char c :: nat) in
     if (65 \<le> n \<and> n \<le> 90) \<or> (192 \<le> n \<and> n \<le> 222 \<and> n \<noteq> 215)
     then char_of (n + 32) else c)"

definition lower :: "string \<Rightarrow> string" where
  "lower t = map lower_char t"

fun join :: "string \<Rightarrow> string list \<Rightarrow> string" where
  "join sep [] = []"
| "join sep [x] = x"
| "join sep (x # y # ys) = x @ sep @ join sep (y # ys)"

definition rfind :: "char \<Rightarrow> string \<Rightarrow> int" where
  \<comment> \<open>\<^verbatim>\<open>str.rfind\<close>: the last index of the character, or -1\<close>
  "rfind c p = (if c \<in> set p
                then int (length p - 1 - length (takeWhile (\<lambda>x. x \<noteq> c) (rev p)))
                else - 1)"

definition splitext :: "string \<Rightarrow> string \<times> string" where
  \<comment> \<open>\<^verbatim>\<open>os.path.splitext\<close> of \<^verbatim>\<open>posixpath\<close>: the extension starts at the last dot of the
      last path component, unless only dots precede it there\<close>
  "splitext p =
     (let sepIndex = rfind CHR ''/'' p; dotIndex = rfind CHR ''.'' p in
      if dotIndex > sepIndex
         \<and> list_ex (\<lambda>ch. ch \<noteq> CHR ''.'')
              (take (nat (dotIndex - (sepIndex + 1))) (drop (nat (sepIndex + 1)) p))
      then (take (nat dotIndex) p, drop (nat dotIndex) p)
      else (p, []))"

definition newline :: string where
  "newline = [CHR 0x0A]"

section \<open>The extraction stage\<close>

definition log_event :: "event \<Rightarrow> state \<Rightarrow> state" where
  "log_event ev s = s\<lparr>calls := calls s @ [ev]\<rparr>"

definition extract_text_from_pdf_with_ocr ::
  "env \<Rightarrow> byte list \<Rightarrow> state \<Rightarrow> (exn + pyval) \<times> state" where
  "extract_text_from_pdf_with_ocr e content s =
     (let s1 = log_event CallPdfOcr s in
      case pdf_pages_ocr e content of
        Inl x \<Rightarrow> (Inl x, s1)
      | Inr pages \<Rightarrow>
          (Inr (PStr (concat (map (\<lambda>result. join newline result @ newline) pages))), s1))"

definition extract_text_from_pdf ::
  "env \<Rightarrow> byte list \<Rightarrow> state \<Rightarrow> (exn + pyval) \<times> state" where
  "extract_text_from_pdf e content s =
     (let file_hash = get_file_hash content;
          s1 = log_event CallPdfText s in
      case pdf_pages_text e content of
        Inl x \<Rightarrow> (Inl x, s1)
      | Inr pages \<Rightarrow>
          (let text = concat (map (\<lambda>page. case page of None \<Rightarrow> [] | Some t \<Rightarrow> t) pages) in
           if strip text = [] then
             (let ocr_cache_key = ''pdf_ocr:'' @ file_hash in
              case get_from_cache e ocr_cache_key s1 of
                (cached_ocr, s2) \<Rightarrow>
                  if cached_ocr \<noteq> PNone then (Inr cached_ocr, s2)
                  else (case extract_text_from_pdf_with_ocr e content s2 of
                          (Inl x, s3) \<Rightarrow> (Inl x, s3)
                        | (Inr text', s3) \<Rightarrow> (Inr text', set_cache e ocr_cache_key text' s3)))
           else (Inr (PStr text), s1)))"

definition extract_text_from_docx ::
  "env \<Rightarrow> byte list \<Rightarrow> state \<Rightarrow> (exn + pyval) \<times> state" where
  "extract_text_from_docx e content s =
     (let s1 = log_event CallDocx s in
      case docx_paragraphs e content of
        Inl x \<Rightarrow> (Inl x, s1)
      | Inr paras \<Rightarrow> (Inr (PStr (join newline paras)), s1))"

definition extract_text_from_image ::
  "env \<Rightarrow> byte list \<Rightarrow> state \<Rightarrow> (exn + pyval) \<times> state" where
  "extract_text_from_image e content s =
     (let cache_key = ''image_ocr:'' @ get_file_hash content in
      case get_from_cache e cache_key s of
        (cached_text, s1) \<Rightarrow>
          if cached_text \<noteq> PNone then (Inr cached_text, s1)
          else (let s2 = log_event CallImageOcr s1 in
                case image_readtext e content of
                  Inl x \<Rightarrow> (Inl x, s2)
                | Inr result \<Rightarrow>
                    (let text = PStr (join newline result) in
                     (Inr text, set_cache e cache_key text s2))))"

definition extract_text_from_resume ::
  "env \<Rightarrow> string \<Rightarrow> byte list \<Rightarrow> state \<Rightarrow> (exn + pyval) \<times> state" where
  "extract_text_from_resume e filename content s =
     (let cache_key = ''text_extract:'' @ get_file_hash content in
      case get_from_cache e cache_key (log_event StageExtract s) of
        (cached_text, s1) \<Rightarrow>
          if cached_text \<noteq> PNone then (Inr cached_text, s1)
          else (let ext = lower (snd (splitext filename)) in
                if ext = ''.pdf'' \<or> ext = ''.docx'' \<or> ext \<in> set [''.png'', ''.jpg'', ''.jpeg'']
                then (case (if ext = ''.pdf'' then extract_text_from_pdf e content s1
                            else if ext = ''.docx'' then extract_text_from_docx e content s1
                            else extract_text_from_image e content s1) of
                        (Inl x, s2) \<Rightarrow> (Inl x, s2)
                      | (Inr text, s2) \<Rightarrow> (Inr text, set_cache e cache_key text s2))
                else (Inr (PStr ''Unsupported file format.''), s1)))"

section \<open>The transform stage and the pipeline\<close>

definition prompt_head_lines :: "string list" where
  \<comment> \<open>the lines of the prompt before the resume text\<close>
  \<open>prompt_head_lines =
    ['''',
     ''You are a resume parser. Extract structured resume data in the following JSON format.'',
     '''',
     ''Expected JSON:'',
     ''{'',
     ''  "id": null,'',
     ''  "targetJobTitle": "",'',
     ''  "targetJobDescription": "",'',
     ''  "personalInfo": {'',
     ''    "fullName": "",'',
     ''    "jobTitle": "",'',
     ''    "email": "",'',
     ''    "phone": "",'',
     ''    "location": "",'',
     ''    "summary": "",'',
     ''    "profilePicture": null'',
     ''  },'',
     ''  "sections": ['',
     ''    {'',
     ''      "id": "null",'',
     ''      "type": "experience",'',
     ''      "title": "Work Experience",'',
     ''      "order": 0,'',
     ''      "hidden": false,'',
     ''      "items": ['',
     ''        {'',
     ''          "jobTitle": "",'',
     ''          "company": "",'',
     ''          "location": "",'',
     ''          "startDate": null,'',
     ''          "endDate": null,'',
     ''          "currentPosition": false,'',
     ''          "description": ""'',
     ''        }'',
     ''      ],'',
     ''      "groups": [],'',
     ''      "state": {}'',
     ''    },'',
     ''    {'',
     ''      "id": "null",'',
     ''      "type": "projects",'',
     ''      "title": "Projects",'',
     ''      "order": 1,'',
     ''      "hidden": false,'',
     ''      "items": [],'',
     ''      "groups": [],'',
     ''      "state": {}'',
     ''    },'',
     ''    {'',
     ''      "id": "null",'',
     ''      "type": "education",'',
     ''      "title": "Education",'',
     ''      "order": 2,'',
     ''      "hidden": false,'',
     ''      "items": [],'',
     ''      "groups": [],'',
     ''      "state": {}'',
     ''    },'',
     ''    {'',
     ''      "id": "null",'',
     ''      "type": "skills",'',
     ''      "title": "Skills",'',
     ''      "order": 3,'',
     ''      "format": "grouped",'',
     ''      "items": [],'',
     ''      "groups": [],'',
     ''      "state": {'',
     ''        "categoryOrder": [],'',
     ''        "viewMode": "categorized"'',
     ''      },'',
     ''      "hidden": false'',
     ''    }'',
     ''  ]'',
     ''}'',
     '''',
     ''Resume Text:'',
     ''"""'',
     '''']\<close>

definition prompt_tail_lines :: "string list" where
  \<comment> \<open>the lines of the prompt after the resume text\<close>
  \<open>prompt_tail_lines =
    ['''',
     ''"""'',
     '''',
     ''Return only valid JSON.'',
     '''']\<close>

definition prompt :: "string \<Rightarrow> string" where
  "prompt raw_text = join newline prompt_head_lines @ raw_text @ join newline prompt_tail_lines"

definition error_result :: "string \<Rightarrow> pyval" where
  "error_result msg = PDict [(''error'', PStr msg)]"

definition transform_text_to_resume_data ::
  "env \<Rightarrow> pyval \<Rightarrow> state \<Rightarrow> (exn + pyval) \<times> state" where
  "transform_text_to_resume_data e raw_text s =
     (let s0 = log_event StageTransform s in
      case raw_text of
        PStr t \<Rightarrow>
          (let cache_key = ''openai_transform:'' @ get_text_hash t in
           case get_from_cache e cache_key s0 of
             (cached_result, s1) \<Rightarrow>
               if cached_result \<noteq> PNone then (Inr cached_result, s1)
               else (let s2 = log_event CallCompletion (s1\<lparr>llm_calls := Suc (llm_calls s1)\<rparr>) in
                     case completion e (llm_calls s1) (prompt t) of
                       Inl msg \<Rightarrow> (Inr (error_result msg), s2)
                     | Inr content \<Rightarrow>
                         (case json_loads e (strip content) of
                            Inl msg \<Rightarrow> (Inr (error_result msg), s2)
                          | Inr result \<Rightarrow> (Inr result, set_cache e cache_key result s2))))
      | _ \<Rightarrow> (Inl ''AttributeError'', s0))"

definition parse_resume ::
  "env \<Rightarrow> string \<Rightarrow> byte list \<Rightarrow> state \<Rightarrow> (exn + pyval) \<times> state" where
  "parse_resume e filename content s =
     (let cache_key = ''full_parse:'' @ get_file_hash content in
      case get_from_cache e cache_key s of
        (cached_result, s1) \<Rightarrow>
          if cached_result \<noteq> PNone then (Inr cached_result, s1)
          else (case extract_text_from_resume e filename content s1 of
                  (Inl x, s2) \<Rightarrow> (Inl x, s2)
                | (Inr raw_text, s2) \<Rightarrow>
                    (case transform_text_to_resume_data e raw_text s2 of
                       (Inl x, s3) \<Rightarrow> (Inl x, s3)
                     | (Inr structured_data, s3) \<Rightarrow>
                         (Inr structured_data, set_cache e cache_key structured_data s3))))"

section \<open>User lookup and the endpoint\<close>

text \<open>
  \<^verbatim>\<open>user_service.py\<close> and \<^verbatim>\<open>app.py\<close>. The database driver, \<^verbatim>\<open>bson.ObjectId\<close> and the
  token verification are collaborators: each either raises or answers. \<^verbatim>\<open>ObjectId\<close>
  raises \<^verbatim>\<open>InvalidId\<close>, which \<^verbatim>\<open>find_user_by_id\<close> catches on its own, or another
  exception (a \<^verbatim>\<open>TypeError\<close> for a value that is not a string), which only the outer
  handler catches. Logging and printing are left out.
\<close>

datatype oid_outcome = InvalidId | OtherException exn | Oid string

record db_env =
  get_database :: "exn + unit"
  list_collection_names :: "exn + string list"
  object_id :: "pyval \<Rightarrow> oid_outcome"
  find_one :: "string \<Rightarrow> exn + pyval dict option"

definition find_user_by_id :: "db_env \<Rightarrow> pyval \<Rightarrow> pyval dict option" where
  "find_user_by_id d user_id =
     (case get_database d of
        Inl x \<Rightarrow> None
      | Inr db \<Rightarrow>
          (case list_collection_names d of
             Inl x \<Rightarrow> None
           | Inr collections \<Rightarrow>
               (case object_id d user_id of
                  InvalidId \<Rightarrow> None
                | OtherException x \<Rightarrow> None
                | Oid oid \<Rightarrow>
                    (case find_one d oid of
                       Inl x \<Rightarrow> None
                     | Inr None \<Rightarrow> None
                     | Inr (Some user) \<Rightarrow>
                         if user = [] then None
                         else if map_of user ''_id'' = None then None
                         else Some (dict_set user ''_id'' (PStr oid))))))"

fun truthy :: "pyval \<Rightarrow> bool" where
  "truthy PNone = False"
| "truthy (PBool b) = b"
| "truthy (PInt i) = (i \<noteq> 0)"
| "truthy (PStr t) = (t \<noteq> [])"
| "truthy (PList xs) = (xs \<noteq> [])"
| "truthy (PDict d) = (d \<noteq> [])"

fun split_on :: "char \<Rightarrow> string \<Rightarrow> string list" where
  \<comment> \<open>\<^verbatim>\<open>str.split(sep)\<close> with a one-character separator\<close>
  "split_on c [] = [[]]"
| "split_on c (x # xs) =
     (if x = c then [] # split_on c xs
      else (case split_on c xs of
              [] \<Rightarrow> [[x]]
            | w # ws \<Rightarrow> (x # w) # ws))"

definition origins :: "string list" where
  "origins =
     [''https://jobstackuidev-gwakgfdgbgh5emdw.canadacentral-01.azurewebsites.net'',
      ''https://jobtackui-fgcdftezgkhbbpbg.canadacentral-01.azurewebsites.net'',
      ''http://localhost:5173'',
      ''https://jobtackui-fgcdftezgkhbbpbg.canadacentral-01.azurewebsites.net'']"

record request =
  origin :: "string option"
  authorization :: "string option"
  file_name :: string
  file_content :: "byte list"

datatype response =
    HTTPException nat pyval
  | Unhandled exn
  | Success pyval pyval

definition error_detail :: "string \<Rightarrow> int \<Rightarrow> pyval" where
  "error_detail msg status = PDict [(''error'', PStr msg), (''status'', PInt status)]"

definition upload_resume ::
  "env \<Rightarrow> db_env \<Rightarrow> (string \<Rightarrow> exn + pyval dict) \<Rightarrow> request \<Rightarrow> state
     \<Rightarrow> response \<times> state" where
  "upload_resume e d verify_token req s =
     (case origin req of
        None \<Rightarrow> (HTTPException 403 (PStr ''Origin not allowed''), s)
      | Some orig \<Rightarrow>
          if orig = [] \<or> orig \<notin> set origins
          then (HTTPException 403 (PStr ''Origin not allowed''), s)
          else (case authorization req of
             None \<Rightarrow> (HTTPException 400 (error_detail ''Authorization header is missing'' 400), s)
           | Some auth_header \<Rightarrow>
               if auth_header = []
               then (HTTPException 400 (error_detail ''Authorization header is missing'' 400), s)
               else (case split_on CHR '' '' auth_header of
                  first # token # rest \<Rightarrow>
                    if token = []
                    then (HTTPException 400 (error_detail ''Bearer token is missing'' 400), s)
                    else (case verify_token token of
                       Inl err \<Rightarrow>
                         (HTTPException 401
                            (PDict [(''error'', PStr ''Invalid or expired token''),
                                    (''status'', PInt 401), (''details'', PStr err)]), s)
                     | Inr decoded_token \<Rightarrow>
                         (let user_id = dict_get decoded_token ''userId'' in
                          if \<not> truthy user_id
                          then (HTTPException 400 (error_detail ''Invalid token payload'' 400), s)
                          else (case find_user_by_id d user_id of
                             None \<Rightarrow>
                               (HTTPException 401 (error_detail ''User does not exist'' 401), s)
                           | Some user \<Rightarrow>
                               (case parse_resume e (file_name req) (file_content req) s of
                                  (Inl x, s') \<Rightarrow> (Unhandled x, s')
                                | (Inr parsed_data, s') \<Rightarrow>
                                    (Success parsed_data (dict_get user ''_id''), s')))))
                | _ \<Rightarrow> (HTTPException 400 (error_detail ''Bearer token is missing'' 400), s))))"

section \<open>Concrete inputs\<close>

text \<open>
  A freshly started process with the remote tier disabled, collaborators that answer
  with nothing, and a supply of pairwise distinct keys.
\<close>

definition empty_state :: state where
  "empty_state = \<lparr>redis_client = False, redis_store = Map.empty, redis_ops = 0,
                   cache = [], llm_calls = 0, calls = []\<rparr>"

definition quiet_env :: env where
  "quiet_env = \<lparr>redis_raises = (\<lambda>n. False),
                 pdf_pages_text = (\<lambda>c. Inr []),
                 pdf_pages_ocr = (\<lambda>c. Inr []),
                 docx_paragraphs = (\<lambda>c. Inr []),
                 image_readtext = (\<lambda>c. Inr []),
                 completion = (\<lambda>n p. Inr ''{}''),
                 json_loads = (\<lambda>t. Inr (PDict []))\<rparr>"

definition fresh_keys :: "nat \<Rightarrow> (string \<times> pyval) list" where
  "fresh_keys n = map (\<lambda>i. (replicate (Suc i) CHR ''k'', PNone)) [0..<n]"

definition flaky_env :: env where
  \<comment> \<open>the first remote operation of the process times out, the later ones succeed\<close>
  "flaky_env = quiet_env\<lparr>redis_raises := (\<lambda>n. n = 0)\<rparr>"

definition failing_env :: env where
  \<comment> \<open>every remote operation raises\<close>
  "failing_env = quiet_env\<lparr>redis_raises := (\<lambda>n. True)\<rparr>"

definition stale_state :: state where
  \<comment> \<open>the remote tier is connected and already holds an entry for the key \<open>K\<close>\<close>
  "stale_state = empty_state\<lparr>redis_client := True,
                              redis_store := [''K'' \<mapsto> PStr ''old'']\<rparr>"

definition retry_env :: env where
  \<comment> \<open>the completion service fails on the first request and answers on the later ones\<close>
  "retry_env = quiet_env\<lparr>pdf_pages_text := (\<lambda>c. Inr [Some ''Jane Doe'']),
                         completion := (\<lambda>n p. if n = 0 then Inl ''timeout'' else Inr ''{}'')\<rparr>"

definition pdf_bytes :: "byte list" where
  \<comment> \<open>the first bytes of a PDF file\<close>
  "pdf_bytes = [0x25, 0x50, 0x44, 0x46]"

definition down_db :: db_env where
  \<comment> \<open>the user store cannot be reached\<close>
  "down_db = \<lparr>get_database = Inl ''connection refused'',
              list_collection_names = Inl ''connection refused'',
              object_id = (\<lambda>v. case v of PStr t \<Rightarrow> Oid t | _ \<Rightarrow> OtherException ''TypeError''),
              find_one = (\<lambda>oid. Inl ''connection refused'')\<rparr>"

definition good_request :: request where
  "good_request = \<lparr>origin = Some ''http://localhost:5173'',
                   authorization = Some ''Bearer abc'',
                   file_name = ''cv.pdf'',
                   file_content = pdf_bytes\<rparr>"

definition accept_token :: "string \<Rightarrow> exn + pyval dict" where
  "accept_token token = Inr [(''userId'', PStr ''64b7f0c2a1d3e4f5a6b7c8d9'')]"

definition scan_env :: env where
  \<comment> \<open>a scanned PDF: no text layer, one page on which two lines are recognised\<close>
  "scan_env = quiet_env\<lparr>pdf_pages_text := (\<lambda>c. Inr [None, Some ''  '']),
                        pdf_pages_ocr := (\<lambda>c. Inr [[''Jane Doe'', ''Engineer'']])\<rparr>"

text \<open>
  Two payloads of 128 bytes that differ in six bytes, published by Wang and Yu in 2004.
\<close>

definition collision_a :: "byte list" where
  "collision_a =
     [0xd1, 0x31, 0xdd, 0x02, 0xc5, 0xe6, 0xee, 0xc4, 0x69, 0x3d, 0x9a, 0x06, 0x98, 0xaf, 0xf9, 0x5c,
      0x2f, 0xca, 0xb5, 0x87, 0x12, 0x46, 0x7e, 0xab, 0x40, 0x04, 0x58, 0x3e, 0xb8, 0xfb, 0x7f, 0x89,
      0x55, 0xad, 0x34, 0x06, 0x09, 0xf4, 0xb3, 0x02, 0x83, 0xe4, 0x88, 0x83, 0x25, 0x71, 0x41, 0x5a,
      0x08, 0x51, 0x25, 0xe8, 0xf7, 0xcd, 0xc9, 0x9f, 0xd9, 0x1d, 0xbd, 0xf2, 0x80, 0x37, 0x3c, 0x5b,
      0xd8, 0x82, 0x3e, 0x31, 0x56, 0x34, 0x8f, 0x5b, 0xae, 0x6d, 0xac, 0xd4, 0x36, 0xc9, 0x19, 0xc6,
      0xdd, 0x53, 0xe2, 0xb4, 0x87, 0xda, 0x03, 0xfd, 0x02, 0x39, 0x63, 0x06, 0xd2, 0x48, 0xcd, 0xa0,
      0xe9, 0x9f, 0x33, 0x42, 0x0f, 0x57, 0x7e, 0xe8, 0xce, 0x54, 0xb6, 0x70, 0x80, 0xa8, 0x0d, 0x1e,
      0xc6, 0x98, 0x21, 0xbc, 0xb6, 0xa8, 0x83, 0x93, 0x96, 0xf9, 0x65, 0x2b, 0x6f, 0xf7, 0x2a, 0x70]"

definition collision_b :: "byte list" where
  "collision_b =
     [0xd1, 0x31, 0xdd, 0x02, 0xc5, 0xe6, 0xee, 0xc4, 0x69, 0x3d, 0x9a, 0x06, 0x98, 0xaf, 0xf9, 0x5c,
      0x2f, 0xca, 0xb5, 0x07, 0x12, 0x46, 0x7e, 0xab, 0x40, 0x04, 0x58, 0x3e, 0xb8, 0xfb, 0x7f, 0x89,
      0x55, 0xad, 0x34, 0x06, 0x09, 0xf4, 0xb3, 0x02, 0x83, 0xe4, 0x88, 0x83, 0x25, 0xf1, 0x41, 0x5a,
      0x08, 0x51, 0x25, 0xe8, 0xf7, 0xcd, 0xc9, 0x9f, 0xd9, 0x1d, 0xbd, 0x72, 0x80, 0x37, 0x3c, 0x5b,
      0xd8, 0x82, 0x3e, 0x31, 0x56, 0x34, 0x8f, 0x5b, 0xae, 0x6d, 0xac, 0xd4, 0x36, 0xc9, 0x19, 0xc6,
      0xdd, 0x53, 0xe2, 0x34, 0x87, 0xda, 0x03, 0xfd, 0x02, 0x39, 0x63, 0x06, 0xd2, 0x48, 0xcd, 0xa0,
      0xe9, 0x9f, 0x33, 0x42, 0x0f, 0x57, 0x7e, 0xe8, 0xce, 0x54, 0xb6, 0x70, 0x80, 0x28, 0x0d, 0x1e,
      0xc6, 0x98, 0x21, 0xbc, 0xb6, 0xa8, 0x83, 0x93, 0x96, 0xf9, 0x65, 0xab, 0x6f, 0xf7, 0x2a, 0x70]"




definition outage_env :: env where
  \<comment> \<open>a scanned PDF, read while the first two remote operations of the process time out\<close>
  "outage_env = scan_env\<lparr>redis_raises := (\<lambda>n. n < 2)\<rparr>"

definition stale_ocr_state :: state where
  \<comment> \<open>the remote tier is connected and holds an older recognition of the same bytes\<close>
  "stale_ocr_state = empty_state\<lparr>redis_client := True,
     redis_store := [''pdf_ocr:'' @ get_file_hash pdf_bytes \<mapsto> PStr ''Jane Roe'']\<rparr>"

definition office_env :: env where
  \<comment> \<open>every extraction library answers with a text of its own\<close>
  "office_env = quiet_env\<lparr>pdf_pages_text := (\<lambda>c. Inr [Some ''text of the pdf'']),
                           docx_paragraphs := (\<lambda>c. Inr [''text of the docx'']),
                           image_readtext := (\<lambda>c. Inr [''text of the image''])\<rparr>"

section \<open>Dictionary lemmas\<close>

lemma dict_set_map_fst:
  "map fst (dict_set d k v) = (if k \<in> set (map fst d) then map fst d else map fst d @ [k])"
  by (induction d) (fastforce simp: image_iff)+

lemma dict_set_distinct:
  "distinct (map fst d) \<Longrightarrow> distinct (map fst (dict_set d k v))"
  by (simp add: dict_set_map_fst)

lemma dict_set_length:
  "length (dict_set d k v) \<le> Suc (length d)"
  by (induction d) auto

lemma dict_set_new:
  "k \<notin> set (map fst d) \<Longrightarrow> dict_set d k v = d @ [(k, v)]"
  by (induction d) auto

lemma dict_get_set:
  "dict_get (dict_set d k v) k = v"
  by (induction d) (auto simp: dict_get_def)

lemma dict_get_set_other:
  "k' \<noteq> k \<Longrightarrow> dict_get (dict_set d k v) k' = dict_get d k'"
  by (induction d) (auto simp: dict_get_def)

lemma foldl_dict_del_notin:
  "set ks \<inter> set (map fst d) = {} \<Longrightarrow> foldl dict_del d ks = d"
proof (induction ks arbitrary: d)
  case Nil
  then show ?case by simp
next
  case (Cons k ks)
  have "dict_del d k = d"
    unfolding dict_del_def using Cons.prems by (intro filter_True) auto
  with Cons show ?case by simp
qed

lemma dict_del_head:
  "k \<notin> set (map fst d) \<Longrightarrow> dict_del ((k, v) # d) k = d"
  unfolding dict_del_def by (simp add: filter_id_conv) force

lemma foldl_dict_del_take:
  "distinct (map fst d) \<Longrightarrow> foldl dict_del d (take n (map fst d)) = drop n d"
proof (induction d arbitrary: n)
  case Nil
  then show ?case by simp
next
  case (Cons a d)
  show ?case
  proof (cases n)
    case 0
    then show ?thesis by simp
  next
    case (Suc m)
    obtain k v where a: "a = (k, v)" by (cases a)
    have "k \<notin> set (map fst d)" using Cons.prems a by simp
    then have "dict_del ((k, v) # d) k = d" by (rule dict_del_head)
    moreover have "distinct (map fst d)" using Cons.prems by simp
    ultimately show ?thesis using Cons.IH [of m] Suc a by simp
  qed
qed

lemma evict_oldest_drop:
  "distinct (map fst d) \<Longrightarrow> evict_oldest d = drop (max_cache_size div 4) d"
  unfolding evict_oldest_def by (rule foldl_dict_del_take)


section \<open>The in-process tier stays within its capacity\<close>

lemma remote_setex_cache:
  "cache (remote_setex e k v s) = cache s"
  by (simp add: remote_setex_def)

lemma set_cache_cache:
  "cache (set_cache e k v s) =
     dict_set (if max_cache_size \<le> length (cache s) then evict_oldest (cache s)
               else cache s) k v"
  by (simp add: set_cache_def Let_def remote_setex_cache)

lemma set_cache_distinct:
  assumes "distinct (map fst (cache s))"
  shows "distinct (map fst (cache (set_cache e k v s)))"
proof -
  have "distinct (map fst (drop (max_cache_size div 4) (cache s)))"
    using assms by (simp add: drop_map [symmetric])
  then show ?thesis
    using assms by (simp add: set_cache_cache evict_oldest_drop dict_set_distinct)
qed

lemma set_cache_bound:
  assumes "distinct (map fst (cache s))" and "length (cache s) \<le> max_cache_size"
  shows "length (cache (set_cache e k v s)) \<le> max_cache_size"
proof (cases "max_cache_size \<le> length (cache s)")
  case True
  have "length (dict_set (drop (max_cache_size div 4) (cache s)) k v)
          \<le> Suc (length (cache s) - max_cache_size div 4)"
    using dict_set_length [of "drop (max_cache_size div 4) (cache s)" k v] by simp
  also have "\<dots> \<le> max_cache_size"
    using assms(2) by (simp add: max_cache_size_def)
  finally show ?thesis
    using True assms(1) by (simp add: set_cache_cache evict_oldest_drop)
next
  case False
  then show ?thesis
    using dict_set_length [of "cache s" k v] by (simp add: set_cache_cache)
qed

lemma set_all_snoc:
  "set_all e (kvs @ [kv]) s = set_cache e (fst kv) (snd kv) (set_all e kvs s)"
  by (simp add: set_all_def)

lemma set_all_invariant:
  assumes "cache s0 = []"
  shows "distinct (map fst (cache (set_all e kvs s0)))
           \<and> length (cache (set_all e kvs s0)) \<le> max_cache_size"
proof (induction kvs rule: rev_induct)
  case Nil
  then show ?case using assms by (simp add: set_all_def)
next
  case (snoc kv kvs)
  then show ?case
    by (simp add: set_all_snoc set_cache_distinct set_cache_bound)
qed

lemma set_all_fresh:
  assumes "cache s0 = []"
  shows "distinct (map fst kvs) \<Longrightarrow> length kvs \<le> max_cache_size
           \<Longrightarrow> cache (set_all e kvs s0) = kvs"
proof (induction kvs rule: rev_induct)
  case Nil
  then show ?case using assms by (simp add: set_all_def)
next
  case (snoc kv kvs)
  then have c: "cache (set_all e kvs s0) = kvs" and new: "fst kv \<notin> set (map fst kvs)"
    and "length kvs < max_cache_size"
    by auto
  then show ?case
    by (simp add: set_all_snoc set_cache_cache dict_set_new)
qed

lemma set_all_overflow_snoc:
  assumes "cache s0 = []" and "distinct (map fst (xs @ [x]))"
    and "length xs = max_cache_size"
  shows "cache (set_all e (xs @ [x]) s0) = drop (max_cache_size div 4) xs @ [x]"
proof -
  have d: "distinct (map fst xs)" and new: "fst x \<notin> set (map fst xs)"
    using assms(2) by auto
  have c: "cache (set_all e xs s0) = xs"
    using set_all_fresh [OF assms(1) d] assms(3) by simp
  have "set (drop (max_cache_size div 4) (map fst xs)) \<subseteq> set (map fst xs)"
    by (rule set_drop_subset)
  with new have new': "fst x \<notin> set (map fst (drop (max_cache_size div 4) xs))"
    by (auto simp: drop_map)
  have "cache (set_all e (xs @ [x]) s0)
          = dict_set (drop (max_cache_size div 4) xs) (fst x) (snd x)"
    using c d assms(3) by (simp add: set_all_snoc set_cache_cache evict_oldest_drop)
  also have "\<dots> = drop (max_cache_size div 4) xs @ [x]"
    using dict_set_new [OF new'] by simp
  finally show ?thesis .
qed

lemma set_all_overflow:
  assumes "cache s0 = []" and "distinct (map fst kvs)"
    and "length kvs = Suc max_cache_size"
  shows "cache (set_all e kvs s0) = drop (max_cache_size div 4) (butlast kvs) @ [last kvs]"
proof (cases kvs rule: rev_cases)
  case Nil
  then show ?thesis using assms(3) by simp
next
  case (snoc xs x)
  then show ?thesis
    using set_all_overflow_snoc [OF assms(1), of xs x e] assms(2,3) by simp
qed

text \<open>
  Claim C2. Starting from an empty in-process dictionary, after any sequence of
  \<^verbatim>\<open>_set_cache\<close> calls the dictionary holds at most \<open>max_cache_size\<close> (1000) entries.
  A call that finds the dictionary at capacity first removes its oldest quarter (the
  first \<open>length div 4\<close> entries in insertion order) and then stores the new entry; and
  after \<open>max_cache_size + 1\<close> distinct keys the oldest 250 are gone, the rest are in
  insertion order, and the size is below the capacity again.
\<close>

theorem set_cache_capacity:
  assumes "cache s0 = []" and "s = set_all e kvs s0"
  shows "length (cache s) \<le> max_cache_size
       \<and> (max_cache_size \<le> length (cache s) \<longrightarrow>
            cache (set_cache e k v s) = dict_set (drop (length (cache s) div 4) (cache s)) k v)
       \<and> (distinct (map fst kvs) \<and> length kvs = max_cache_size + 1 \<longrightarrow>
            cache s = drop (max_cache_size div 4) (butlast kvs) @ [last kvs]
            \<and> length (cache s) < max_cache_size)"
proof -
  have inv: "distinct (map fst (cache s))" "length (cache s) \<le> max_cache_size"
    using set_all_invariant [OF assms(1), of e kvs] assms(2) by simp_all
  have full: "cache (set_cache e k v s) = dict_set (drop (length (cache s) div 4) (cache s)) k v"
    if "max_cache_size \<le> length (cache s)"
  proof -
    have "length (cache s) = max_cache_size" using that inv(2) by simp
    then show ?thesis using that inv(1) by (simp add: set_cache_cache evict_oldest_drop)
  qed
  have over: "cache s = drop (max_cache_size div 4) (butlast kvs) @ [last kvs]
                \<and> length (cache s) < max_cache_size"
    if "distinct (map fst kvs)" and "length kvs = max_cache_size + 1"
  proof -
    have c: "cache s = drop (max_cache_size div 4) (butlast kvs) @ [last kvs]"
      using set_all_overflow [OF assms(1) that(1)] that(2) assms(2) by simp
    have "length (cache s) = Suc (max_cache_size - max_cache_size div 4)"
      unfolding c using that(2) by simp
    then show ?thesis using c by (simp add: max_cache_size_def)
  qed
  show ?thesis using inv(2) full over by blast
qed

lemma fresh_keys_distinct:
  "distinct (map fst (fresh_keys n))"
  by (simp add: fresh_keys_def distinct_map comp_def inj_on_def)

lemma fresh_keys_length:
  "length (fresh_keys n) = n"
  by (simp add: fresh_keys_def)

theorem set_cache_capacity_witness:
  "cache empty_state = []
   \<and> max_cache_size \<le> length (cache (set_all quiet_env (fresh_keys 1000) empty_state))
   \<and> cache (set_cache quiet_env ''new'' PNone (set_all quiet_env (fresh_keys 1000) empty_state))
       = dict_set (drop (length (cache (set_all quiet_env (fresh_keys 1000) empty_state)) div 4)
                    (cache (set_all quiet_env (fresh_keys 1000) empty_state))) ''new'' PNone
   \<and> distinct (map fst (fresh_keys 1001))
   \<and> length (fresh_keys 1001) = max_cache_size + 1
   \<and> cache (set_all quiet_env (fresh_keys 1001) empty_state)
       = drop (max_cache_size div 4) (butlast (fresh_keys 1001)) @ [last (fresh_keys 1001)]
   \<and> length (cache (set_all quiet_env (fresh_keys 1001) empty_state)) < max_cache_size"
proof -
  have e: "cache empty_state = []"
    by (simp add: empty_state_def)
  have full: "cache (set_all quiet_env (fresh_keys 1000) empty_state) = fresh_keys 1000"
    by (rule set_all_fresh [OF e fresh_keys_distinct])
       (simp add: fresh_keys_length max_cache_size_def)
  have h1: "max_cache_size \<le> length (cache (set_all quiet_env (fresh_keys 1000) empty_state))"
    by (simp add: full fresh_keys_length max_cache_size_def)
  have h2: "distinct (map fst (fresh_keys 1001))"
    by (rule fresh_keys_distinct)
  have h3: "length (fresh_keys 1001) = max_cache_size + 1"
    by (simp add: fresh_keys_length max_cache_size_def)
  show ?thesis
    using e h1 h2 h3
      set_cache_capacity [OF e refl, of quiet_env "fresh_keys 1000" "''new''" PNone]
      set_cache_capacity [OF e refl, of quiet_env "fresh_keys 1001" "''new''" PNone]
    by blast
qed

section \<open>Writing and reading back\<close>

lemma set_cache_redis_client:
  "redis_client (set_cache e k v s) = redis_client s"
  by (simp add: set_cache_def remote_setex_def Let_def)

lemma set_cache_redis_ops:
  "redis_ops (set_cache e k v s) = (if redis_client s then Suc (redis_ops s) else redis_ops s)"
  by (simp add: set_cache_def remote_setex_def Let_def)

lemma set_cache_redis_store:
  "redis_store (set_cache e k v s) =
     (if redis_client s \<and> \<not> redis_raises e (redis_ops s) then (redis_store s)(k \<mapsto> v)
      else redis_store s)"
  by (simp add: set_cache_def remote_setex_def Let_def)


lemma set_cache_calls:
  "calls (set_cache e k v s) = calls s"
  by (simp add: set_cache_def remote_setex_def Let_def)

lemma set_cache_dict_get:
  "dict_get (cache (set_cache e k v s)) k = v"
  by (simp add: set_cache_cache dict_get_set)

lemma get_from_cache_local:
  "\<not> redis_client s \<or> redis_raises e (redis_ops s) \<or> redis_store s k = None
     \<Longrightarrow> fst (get_from_cache e k s) = dict_get (cache s) k"
  by (auto simp: get_from_cache_def Let_def)

lemma get_from_cache_remote:
  "redis_client s \<Longrightarrow> \<not> redis_raises e (redis_ops s) \<Longrightarrow> redis_store s k = Some w
     \<Longrightarrow> fst (get_from_cache e k s) = w"
  by (simp add: get_from_cache_def Let_def)

text \<open>
  Claim C3, as the code has it. \<^verbatim>\<open>_set_cache(K, V)\<close> followed at once by
  \<^verbatim>\<open>_get_from_cache(K)\<close> returns \<open>V\<close> when the remote tier is disabled, or the remote
  write went through, or the remote read raises, or the remote tier holds no other
  value for \<open>K\<close>. This covers a disabled remote tier and one whose every operation
  raises.
\<close>

theorem cache_round_trip:
  assumes "\<not> redis_client s \<or> \<not> redis_raises e (redis_ops s)
             \<or> redis_raises e (Suc (redis_ops s))
             \<or> redis_store s k = None \<or> redis_store s k = Some v"
  shows "fst (get_from_cache e k (set_cache e k v s)) = v"
proof (cases "redis_client s \<and> \<not> redis_raises e (Suc (redis_ops s))
                \<and> redis_store (set_cache e k v s) k \<noteq> None")
  case True
  then obtain w where w: "redis_store (set_cache e k v s) k = Some w" by auto
  have "w = v"
    using w assms True by (auto simp: set_cache_redis_store split: if_splits)
  moreover have "fst (get_from_cache e k (set_cache e k v s)) = w"
    using True w
    by (intro get_from_cache_remote) (simp_all add: set_cache_redis_client set_cache_redis_ops)
  ultimately show ?thesis by simp
next
  case False
  then have "fst (get_from_cache e k (set_cache e k v s))
               = dict_get (cache (set_cache e k v s)) k"
    by (intro get_from_cache_local)
       (auto simp: set_cache_redis_client set_cache_redis_ops)
  then show ?thesis by (simp add: set_cache_dict_get)
qed

theorem cache_round_trip_witness:
  "redis_raises failing_env (Suc (redis_ops stale_state))
   \<and> fst (get_from_cache failing_env ''K''
            (set_cache failing_env ''K'' (PStr ''new'') stale_state)) = PStr ''new''"
proof -
  have h: "redis_raises failing_env (Suc (redis_ops stale_state))"
    by (simp add: failing_env_def)
  show ?thesis
    using h cache_round_trip [of stale_state failing_env "''K''" "PStr ''new''"] by blast
qed

text \<open>
  The claim as stated fails when the remote write raises and the remote read then
  succeeds: the read returns the entry the remote tier held before.
\<close>

theorem cache_round_trip_counterexample:
  "fst (get_from_cache flaky_env ''K'' (set_cache flaky_env ''K'' (PStr ''new'') stale_state))
     = PStr ''old''"
  by (simp add: get_from_cache_def set_cache_def remote_setex_def Let_def
      flaky_env_def quiet_env_def stale_state_def empty_state_def)

section \<open>A failed transform leaves the caches alone\<close>

lemma get_from_cache_state:
  "snd (get_from_cache e k s)
     = s\<lparr>redis_ops := (if redis_client s then Suc (redis_ops s) else redis_ops s)\<rparr>"
  by (simp add: get_from_cache_def Let_def split: option.split)

lemma get_from_cache_cong:
  assumes "redis_client s' = redis_client s" and "redis_store s' = redis_store s"
    and "cache s' = cache s"
    and "redis_client s \<longrightarrow> redis_raises e (redis_ops s') = redis_raises e (redis_ops s)"
  shows "fst (get_from_cache e k s') = fst (get_from_cache e k s)"
  using assms by (simp add: get_from_cache_def Let_def split: option.split)

lemma log_event_simps:
  "redis_client (log_event ev s) = redis_client s"
  "redis_store (log_event ev s) = redis_store s"
  "redis_ops (log_event ev s) = redis_ops s"
  "cache (log_event ev s) = cache s"
  "llm_calls (log_event ev s) = llm_calls s"
  "calls (log_event ev s) = calls s @ [ev]"
  by (simp_all add: log_event_def)

lemma get_from_cache_fields:
  "redis_client (snd (get_from_cache e k s)) = redis_client s"
  "redis_store (snd (get_from_cache e k s)) = redis_store s"
  "redis_ops (snd (get_from_cache e k s))
     = (if redis_client s then Suc (redis_ops s) else redis_ops s)"
  "cache (snd (get_from_cache e k s)) = cache s"
  "llm_calls (snd (get_from_cache e k s)) = llm_calls s"
  "calls (snd (get_from_cache e k s)) = calls s"
  by (simp_all add: get_from_cache_state)









section \<open>The pipeline stores whatever the transform returns\<close>

lemma ext_pdf: "lower (snd (splitext ''cv.pdf'')) = ''.pdf''"
  by (simp add: splitext_def rfind_def lower_def lower_char_def Let_def)

lemma blank_jane: "strip ''Jane Doe'' \<noteq> []"
  by (simp add: strip_def is_space_def Let_def)

lemmas run_defs =
  parse_resume_def extract_text_from_resume_def extract_text_from_pdf_def
  transform_text_to_resume_data_def get_from_cache_def set_cache_def remote_setex_def
  log_event_def dict_get_def Let_def max_cache_size_def error_result_def
  retry_env_def quiet_env_def empty_state_def

text \<open>
  Claim C1 asks that an error object returned by the transform is not stored under any
  key of the file. \<^verbatim>\<open>parse_resume\<close> stores the transform's result under
  \<^verbatim>\<open>full_parse:<fingerprint>\<close> without looking at it. Here the completion service
  fails on the first request only: the first call returns the error object and stores it,
  the second call returns the stored error without a new completion request, although
  the transform, asked again, would now succeed.
\<close>

theorem parse_resume_caches_error:
  "fst (parse_resume retry_env ''cv.pdf'' pdf_bytes empty_state) = Inr (error_result ''timeout'')
   \<and> dict_get (cache (snd (parse_resume retry_env ''cv.pdf'' pdf_bytes empty_state)))
         (''full_parse:'' @ get_file_hash pdf_bytes) = error_result ''timeout''
   \<and> fst (parse_resume retry_env ''cv.pdf'' pdf_bytes
            (snd (parse_resume retry_env ''cv.pdf'' pdf_bytes empty_state)))
       = Inr (error_result ''timeout'')
   \<and> llm_calls (snd (parse_resume retry_env ''cv.pdf'' pdf_bytes
            (snd (parse_resume retry_env ''cv.pdf'' pdf_bytes empty_state))))
       = llm_calls (snd (parse_resume retry_env ''cv.pdf'' pdf_bytes empty_state))
   \<and> fst (transform_text_to_resume_data retry_env (PStr ''Jane Doe'')
            (snd (parse_resume retry_env ''cv.pdf'' pdf_bytes empty_state)))
       = Inr (PDict [])"
  by (simp add: run_defs ext_pdf blank_jane)

section \<open>Dispatch on the extension\<close>

lemma extract_hit:
  assumes "fst (get_from_cache e (''text_extract:'' @ get_file_hash content)
                 (log_event StageExtract s)) \<noteq> PNone"
  shows "extract_text_from_resume e filename content s =
           (Inr (fst (get_from_cache e (''text_extract:'' @ get_file_hash content)
                        (log_event StageExtract s))),
            snd (get_from_cache e (''text_extract:'' @ get_file_hash content)
                   (log_event StageExtract s)))"
  using assms by (simp add: extract_text_from_resume_def Let_def case_prod_beta)

lemma extract_miss:
  assumes "fst (get_from_cache e (''text_extract:'' @ get_file_hash content)
                 (log_event StageExtract s)) = PNone"
  shows "extract_text_from_resume e filename content s =
     (let cache_key = ''text_extract:'' @ get_file_hash content;
          s1 = snd (get_from_cache e cache_key (log_event StageExtract s));
          ext = lower (snd (splitext filename)) in
      if ext = ''.pdf'' \<or> ext = ''.docx'' \<or> ext \<in> set [''.png'', ''.jpg'', ''.jpeg'']
      then (case (if ext = ''.pdf'' then extract_text_from_pdf e content s1
                  else if ext = ''.docx'' then extract_text_from_docx e content s1
                  else extract_text_from_image e content s1) of
              (Inl x, s2) \<Rightarrow> (Inl x, s2)
            | (Inr text, s2) \<Rightarrow> (Inr text, set_cache e cache_key text s2))
      else (Inr (PStr ''Unsupported file format.''), s1))"
  using assms by (simp add: extract_text_from_resume_def Let_def case_prod_beta)

lemma pdf_calls:
  "calls (snd (extract_text_from_pdf e c s)) = calls s @ [CallPdfText]
   \<or> calls (snd (extract_text_from_pdf e c s)) = calls s @ [CallPdfText, CallPdfOcr]"
  by (auto simp: extract_text_from_pdf_def extract_text_from_pdf_with_ocr_def Let_def
      case_prod_beta log_event_simps get_from_cache_fields set_cache_calls
      split: sum.split)

lemma docx_calls:
  "calls (snd (extract_text_from_docx e c s)) = calls s @ [CallDocx]"
  by (simp add: extract_text_from_docx_def Let_def log_event_simps split: sum.split)

lemma image_calls:
  "calls (snd (extract_text_from_image e c s)) = calls s
   \<or> calls (snd (extract_text_from_image e c s)) = calls s @ [CallImageOcr]"
  by (auto simp: extract_text_from_image_def Let_def case_prod_beta log_event_simps
      get_from_cache_fields set_cache_calls split: sum.split)

text \<open>
  Claim C6, as the code has it. The lookup under \<^verbatim>\<open>text_extract:<fingerprint>\<close> comes
  before the dispatch, and a value found there is returned whatever the extension. For a
  filename whose lower-cased extension is none of \<^verbatim>\<open>.pdf .docx .png .jpg .jpeg\<close> the
  function never raises and calls no extraction library: it returns the cached value
  when the lookup finds one, and the text \<^verbatim>\<open>Unsupported file format.\<close> otherwise, writing
  nothing to either tier. When the lookup misses, \<^verbatim>\<open>.pdf\<close> goes to the PDF extractor,
  \<^verbatim>\<open>.docx\<close> to the DOCX extractor and the three image extensions to the image extractor,
  and to no other: the call returns what that extractor returns, stores a text it
  produced under the key, lets its exception through, and the log of library calls holds
  calls of that category only.
\<close>

theorem extract_dispatch:
  assumes key: "key = ''text_extract:'' @ get_file_hash content"
    and s1: "s1 = snd (get_from_cache e key (log_event StageExtract s))"
    and hit: "hit = fst (get_from_cache e key (log_event StageExtract s))"
    and ext: "ext = lower (snd (splitext filename))"
    and r: "r = extract_text_from_resume e filename content s"
    and keep: "keep = (\<lambda>(v, s2). case v of Inl x \<Rightarrow> (Inl x, s2)
                                 | Inr text \<Rightarrow> (Inr text, set_cache e key text s2))"
  shows "(ext \<notin> {''.pdf'', ''.docx'', ''.png'', ''.jpg'', ''.jpeg''} \<longrightarrow>
            fst r = Inr (if hit = PNone then PStr ''Unsupported file format.'' else hit)
            \<and> snd r = s1 \<and> cache s1 = cache s \<and> redis_store s1 = redis_store s
            \<and> calls s1 = calls s @ [StageExtract])
       \<and> (hit \<noteq> PNone \<longrightarrow> r = (Inr hit, s1))
       \<and> (hit = PNone \<and> ext = ''.pdf'' \<longrightarrow>
            r = keep (extract_text_from_pdf e content s1)
            \<and> (calls (snd r) = calls s @ [StageExtract, CallPdfText]
                 \<or> calls (snd r) = calls s @ [StageExtract, CallPdfText, CallPdfOcr]))
       \<and> (hit = PNone \<and> ext = ''.docx'' \<longrightarrow>
            r = keep (extract_text_from_docx e content s1)
            \<and> calls (snd r) = calls s @ [StageExtract, CallDocx])
       \<and> (hit = PNone \<and> ext \<in> {''.png'', ''.jpg'', ''.jpeg''} \<longrightarrow>
            r = keep (extract_text_from_image e content s1)
            \<and> (calls (snd r) = calls s @ [StageExtract]
                 \<or> calls (snd r) = calls s @ [StageExtract, CallImageOcr]))"
proof -
  have fields: "cache s1 = cache s" "redis_store s1 = redis_store s"
    "calls s1 = calls s @ [StageExtract]"
    unfolding s1 by (simp_all add: get_from_cache_fields log_event_simps)
  have found: "r = (Inr hit, s1)" if "hit \<noteq> PNone"
  proof -
    have h: "fst (get_from_cache e (''text_extract:'' @ get_file_hash content)
                 (log_event StageExtract s)) \<noteq> PNone"
      using that hit key by simp
    show ?thesis
      unfolding r extract_hit [OF h] hit s1 key by simp
  qed
  have unsupported: "fst r = Inr (if hit = PNone then PStr ''Unsupported file format.'' else hit)
      \<and> snd r = s1"
    if "ext \<notin> {''.pdf'', ''.docx'', ''.png'', ''.jpg'', ''.jpeg''}"
  proof (cases "hit = PNone")
    case True
    then have m: "fst (get_from_cache e (''text_extract:'' @ get_file_hash content)
                 (log_event StageExtract s)) = PNone"
      using hit key by simp
    show ?thesis
      using that True unfolding r extract_miss [OF m] Let_def ext s1 key by simp
  next
    case False
    then show ?thesis
      using found by simp
  qed
  have recognised: "r = keep (if ext = ''.pdf'' then extract_text_from_pdf e content s1
                  else if ext = ''.docx'' then extract_text_from_docx e content s1
                  else extract_text_from_image e content s1)"
    if "hit = PNone" and "ext \<in> {''.pdf'', ''.docx'', ''.png'', ''.jpg'', ''.jpeg''}"
  proof -
    have m: "fst (get_from_cache e (''text_extract:'' @ get_file_hash content)
                 (log_event StageExtract s)) = PNone"
      using that(1) hit key by simp
    show ?thesis
      using that(2) unfolding r extract_miss [OF m] Let_def ext s1 key keep
      by (auto split: prod.split sum.split)
  qed
  have kept: "calls (snd (keep p)) = calls (snd p)" for p
    unfolding keep by (auto simp: set_cache_calls split: prod.split sum.split)
  have pdf: "r = keep (extract_text_from_pdf e content s1)
            \<and> (calls (snd r) = calls s @ [StageExtract, CallPdfText]
                 \<or> calls (snd r) = calls s @ [StageExtract, CallPdfText, CallPdfOcr])"
    if "hit = PNone" and "ext = ''.pdf''"
  proof -
    have eq: "r = keep (extract_text_from_pdf e content s1)"
      using recognised [OF that(1)] that(2) by simp
    show ?thesis
      using pdf_calls [of e content s1] unfolding eq kept fields(3) by (simp add: eq)
  qed
  have docx: "r = keep (extract_text_from_docx e content s1)
            \<and> calls (snd r) = calls s @ [StageExtract, CallDocx]"
    if "hit = PNone" and "ext = ''.docx''"
  proof -
    have eq: "r = keep (extract_text_from_docx e content s1)"
      using recognised [OF that(1)] that(2) by simp
    show ?thesis
      unfolding eq kept docx_calls fields(3) by simp
  qed
  have image: "r = keep (extract_text_from_image e content s1)
            \<and> (calls (snd r) = calls s @ [StageExtract]
                 \<or> calls (snd r) = calls s @ [StageExtract, CallImageOcr])"
    if "hit = PNone" and "ext \<in> {''.png'', ''.jpg'', ''.jpeg''}"
  proof -
    have eq: "r = keep (extract_text_from_image e content s1)"
      using recognised [OF that(1)] that(2) by auto
    show ?thesis
      using image_calls [of e content s1] unfolding eq kept fields(3) by (simp add: eq)
  qed
  show ?thesis
    using fields unsupported found pdf docx image by blast
qed

lemma ext_txt: "lower (snd (splitext ''cv.txt'')) = ''.txt''"
  by (simp add: splitext_def rfind_def lower_def lower_char_def Let_def)

lemma ext_PDF: "lower (snd (splitext ''CV.PDF'')) = ''.pdf''"
  by code_simp

lemma ext_docx: "lower (snd (splitext ''cv.docx'')) = ''.docx''"
  by (simp add: splitext_def rfind_def lower_def lower_char_def Let_def)

lemma ext_JPG: "lower (snd (splitext ''scan.JPG'')) = ''.jpg''"
  by code_simp

lemma empty_state_miss:
  "fst (get_from_cache e key (log_event ev empty_state)) = PNone"
  by (simp add: get_from_cache_def log_event_def empty_state_def dict_get_def)

theorem extract_dispatch_witness:
  "lower (snd (splitext ''cv.txt'')) \<notin> {''.pdf'', ''.docx'', ''.png'', ''.jpg'', ''.jpeg''}
   \<and> extract_text_from_resume office_env ''cv.txt'' pdf_bytes empty_state
       = (Inr (PStr ''Unsupported file format.''), log_event StageExtract empty_state)
   \<and> lower (snd (splitext ''CV.PDF'')) = ''.pdf''
   \<and> fst (extract_text_from_resume office_env ''CV.PDF'' pdf_bytes empty_state)
       = Inr (PStr ''text of the pdf'')
   \<and> calls (snd (extract_text_from_resume office_env ''CV.PDF'' pdf_bytes empty_state))
       = [StageExtract, CallPdfText]
   \<and> dict_get (cache (snd (extract_text_from_resume office_env ''CV.PDF'' pdf_bytes empty_state)))
         (''text_extract:'' @ get_file_hash pdf_bytes) = PStr ''text of the pdf''
   \<and> lower (snd (splitext ''cv.docx'')) = ''.docx''
   \<and> fst (extract_text_from_resume office_env ''cv.docx'' pdf_bytes empty_state)
       = Inr (PStr ''text of the docx'')
   \<and> calls (snd (extract_text_from_resume office_env ''cv.docx'' pdf_bytes empty_state))
       = [StageExtract, CallDocx]
   \<and> lower (snd (splitext ''scan.JPG'')) \<in> {''.png'', ''.jpg'', ''.jpeg''}
   \<and> fst (extract_text_from_resume office_env ''scan.JPG'' pdf_bytes empty_state)
       = Inr (PStr ''text of the image'')
   \<and> calls (snd (extract_text_from_resume office_env ''scan.JPG'' pdf_bytes empty_state))
       = [StageExtract, CallImageOcr]"
proof -
  let ?key = "''text_extract:'' @ get_file_hash pdf_bytes"
  let ?s1 = "log_event StageExtract empty_state"
  have miss: "fst (get_from_cache office_env ?key ?s1) = PNone"
    by (rule empty_state_miss)
  have s1: "snd (get_from_cache office_env k ?s1) = ?s1" for k
    by (simp add: get_from_cache_def log_event_def empty_state_def)
  have logged: "calls empty_state = []"
    by (simp add: empty_state_def)
  have pdf: "extract_text_from_pdf office_env pdf_bytes ?s1
               = (Inr (PStr ''text of the pdf''), log_event CallPdfText ?s1)"
    by (simp add: extract_text_from_pdf_def office_env_def quiet_env_def Let_def strip_def
        is_space_def)
  have docx: "extract_text_from_docx office_env pdf_bytes ?s1
               = (Inr (PStr ''text of the docx''), log_event CallDocx ?s1)"
    by (simp add: extract_text_from_docx_def office_env_def quiet_env_def Let_def)
  have image: "extract_text_from_image office_env pdf_bytes ?s1
               = (Inr (PStr ''text of the image''),
                  set_cache office_env (''image_ocr:'' @ get_file_hash pdf_bytes)
                    (PStr ''text of the image'') (log_event CallImageOcr ?s1))"
    by (simp add: extract_text_from_image_def office_env_def quiet_env_def Let_def
        get_from_cache_def log_event_def empty_state_def dict_get_def)
  have a: "lower (snd (splitext ''cv.txt'')) \<notin> {''.pdf'', ''.docx'', ''.png'', ''.jpg'', ''.jpeg''}"
    by (simp add: ext_txt)
  have d: "lower (snd (splitext ''scan.JPG'')) \<in> {''.png'', ''.jpg'', ''.jpeg''}"
    by (simp add: ext_JPG)
  note txt_inst = extract_dispatch [where e = office_env and content = pdf_bytes
      and s = empty_state and filename = "''cv.txt''", OF refl refl refl refl refl refl]
  note pdf_inst = extract_dispatch [where e = office_env and content = pdf_bytes
      and s = empty_state and filename = "''CV.PDF''", OF refl refl refl refl refl refl]
  note docx_inst = extract_dispatch [where e = office_env and content = pdf_bytes
      and s = empty_state and filename = "''cv.docx''", OF refl refl refl refl refl refl]
  note jpg_inst = extract_dispatch [where e = office_env and content = pdf_bytes
      and s = empty_state and filename = "''scan.JPG''", OF refl refl refl refl refl refl]
  have r_txt: "extract_text_from_resume office_env ''cv.txt'' pdf_bytes empty_state
       = (Inr (PStr ''Unsupported file format.''), ?s1)"
    using txt_inst a miss s1 by (simp add: prod_eq_iff)
  have r_pdf: "extract_text_from_resume office_env ''CV.PDF'' pdf_bytes empty_state
       = (Inr (PStr ''text of the pdf''),
          set_cache office_env ?key (PStr ''text of the pdf'') (log_event CallPdfText ?s1))"
    using pdf_inst miss ext_PDF by (simp add: s1 pdf)
  have r_docx: "extract_text_from_resume office_env ''cv.docx'' pdf_bytes empty_state
       = (Inr (PStr ''text of the docx''),
          set_cache office_env ?key (PStr ''text of the docx'') (log_event CallDocx ?s1))"
    using docx_inst miss ext_docx by (simp add: s1 docx)
  have r_jpg: "extract_text_from_resume office_env ''scan.JPG'' pdf_bytes empty_state
       = (Inr (PStr ''text of the image''),
          set_cache office_env ?key (PStr ''text of the image'')
            (set_cache office_env (''image_ocr:'' @ get_file_hash pdf_bytes)
               (PStr ''text of the image'') (log_event CallImageOcr ?s1)))"
    using jpg_inst miss d by (simp add: s1 image)
  show ?thesis
    unfolding r_txt r_pdf r_docx r_jpg
    using a d ext_PDF ext_docx
    by (simp add: set_cache_calls set_cache_dict_get log_event_simps logged)
qed

text \<open>
  The claim as stated fails once the same bytes were extracted under a recognised name:
  the cached text comes back for the unsupported name.
\<close>

theorem extract_unsupported_counterexample:
  "lower (snd (splitext ''cv.txt'')) \<notin> {''.pdf'', ''.docx'', ''.png'', ''.jpg'', ''.jpeg''}
   \<and> fst (extract_text_from_resume retry_env ''cv.txt'' pdf_bytes
            (snd (extract_text_from_resume retry_env ''cv.pdf'' pdf_bytes empty_state)))
       = Inr (PStr ''Jane Doe'')"
  by (simp add: run_defs ext_pdf ext_txt blank_jane)

section \<open>Fingerprints collide\<close>

lemma length_le_bytes:
  "length (le_bytes k v) = k"
  by (induction k arbitrary: v) auto

lemma md5_length:
  "length (md5 m) = 16"
  by (simp add: md5_def length_le_bytes split: prod.split)

lemma hexdigest_length:
  "length (hexdigest bs) = 2 * length bs"
  by (induction bs) (auto simp: hexdigest_def)

lemma hex_digit_mem:
  "n < 16 \<Longrightarrow> hex_digit n \<in> set ''0123456789abcdef''"
  unfolding hex_digit_def by (rule nth_mem) simp

lemma hexdigest_chars:
  "set (hexdigest bs) \<subseteq> set ''0123456789abcdef''"
proof -
  define D where "D = set ''0123456789abcdef''"
  have "unat b < 256" for b :: byte
    using unsigned_less [of b] by simp
  then have "unat b div 16 < 16" and "unat b mod 16 < 16" for b :: byte
    by (simp_all add: less_mult_imp_div_less)
  then have d: "hex_digit (unat b div 16) \<in> D" "hex_digit (unat b mod 16) \<in> D" for b :: byte
    unfolding D_def by (simp_all only: hex_digit_mem)
  have "set (hexdigest bs) \<subseteq> D"
    unfolding hexdigest_def using d by auto
  then show ?thesis
    unfolding D_def .
qed

lemma finite_digests:
  "finite (range (\<lambda>m. hexdigest (md5 m)))"
proof -
  have "range md5 \<subseteq> {bs. set bs \<subseteq> (UNIV :: byte set) \<and> length bs = 16}"
    by (auto simp: md5_length)
  then have "finite (range md5)"
    by (rule finite_subset) (rule finite_lists_length_eq, simp)
  then have "finite (hexdigest ` range md5)"
    by (rule finite_imageI)
  then show ?thesis
    by (simp add: image_image)
qed

lemma text_hash_collision:
  "\<exists>T1 T2. T1 \<noteq> T2 \<and> get_text_hash T1 = get_text_hash T2"
proof (rule ccontr)
  assume "\<not> ?thesis"
  then have "inj get_text_hash"
    by (auto simp: inj_on_def)
  moreover have "range get_text_hash \<subseteq> range (\<lambda>m. hexdigest (md5 m))"
    by (auto simp: get_text_hash_def)
  then have "finite (range get_text_hash)"
    using finite_digests by (rule finite_subset)
  ultimately have "finite (UNIV :: string set)"
    by (rule finite_imageD [rotated])
  then show False
    using infinite_UNIV_listI by blast
qed

subsection \<open>Evaluating the digest\<close>

text \<open>
  A block is evaluated eight steps at a time; the lemmas below follow the four blocks of
  the two colliding payloads, their common padding block, and the single blocks of the
  empty payload and of the text \<^verbatim>\<open>abc\<close>.
\<close>

lemma chunks_append:
  "length xs = n \<Longrightarrow> 0 < n \<Longrightarrow> chunks n (xs @ ys) = xs # chunks n ys"
  by (cases xs) auto

lemma chunks_single:
  "length xs = n \<Longrightarrow> 0 < n \<Longrightarrow> chunks n xs = [xs]"
  using chunks_append [of xs n "[]"] by simp

lemma collision_a_length:
  "length collision_a = 128"
  by (simp add: collision_a_def)

lemma collision_b_length:
  "length collision_b = 128"
  by (simp add: collision_b_def)

lemma chunks_two_blocks:
  assumes "length m = 128"
  shows "chunks 64 (md5_pad m)
           = [take 64 m, drop 64 m, 0x80 # replicate 55 0 @ le_bytes 8 1024]"
proof -
  let ?tail = "0x80 # replicate 55 0 @ le_bytes 8 1024"
  have "md5_pad m = m @ ?tail"
    using assms by (simp add: md5_pad_def)
  also have "\<dots> = take 64 m @ (drop 64 m @ ?tail)"
    by (simp only: append_assoc [symmetric] append_take_drop_id)
  finally have pad: "md5_pad m = take 64 m @ (drop 64 m @ ?tail)" .
  have a: "chunks 64 (take 64 m @ (drop 64 m @ ?tail)) = take 64 m # chunks 64 (drop 64 m @ ?tail)"
    by (rule chunks_append) (simp_all add: assms)
  have b: "chunks 64 (drop 64 m @ ?tail) = drop 64 m # chunks 64 ?tail"
    by (rule chunks_append) (simp_all add: assms)
  have c: "chunks 64 ?tail = [?tail]"
    by (rule chunks_single) (simp_all add: length_le_bytes)
  show ?thesis
    unfolding pad a b c ..
qed

lemma empty_chunks:
  "chunks 64 (md5_pad []) = [0x80 # replicate 55 0 @ le_bytes 8 0]"
proof -
  have "md5_pad [] = 0x80 # replicate 55 0 @ le_bytes 8 0"
    by (simp add: md5_pad_def)
  moreover have "chunks 64 (0x80 # replicate 55 0 @ le_bytes 8 0)
                   = [0x80 # replicate 55 0 @ le_bytes 8 0]"
    by (rule chunks_single) (simp_all add: length_le_bytes)
  ultimately show ?thesis
    by simp
qed

lemma encode_abc:
  "encode_utf8 ''abc'' = [0x61, 0x62, 0x63]"
  by (simp add: encode_utf8_def utf8_char_def)

lemma abc_chunks:
  "chunks 64 (md5_pad (encode_utf8 ''abc''))
     = [[0x61, 0x62, 0x63, 0x80] @ replicate 52 0 @ le_bytes 8 24]"
proof -
  have "md5_pad (encode_utf8 ''abc'') = [0x61, 0x62, 0x63, 0x80] @ replicate 52 0 @ le_bytes 8 24"
    by (simp add: md5_pad_def encode_abc)
  moreover have "chunks 64 ([0x61, 0x62, 0x63, 0x80] @ replicate 52 0 @ le_bytes 8 24)
                   = [[0x61, 0x62, 0x63, 0x80] @ replicate 52 0 @ le_bytes 8 24]"
    by (rule chunks_single) (simp_all add: length_le_bytes)
  ultimately show ?thesis
    by simp
qed

lemma le_bytes_8:
  "le_bytes 8 v = [of_nat (v mod 256), of_nat (v div 256 mod 256),
     of_nat (v div 256 div 256 mod 256), of_nat (v div 256 div 256 div 256 mod 256),
     of_nat (v div 256 div 256 div 256 div 256 mod 256),
     of_nat (v div 256 div 256 div 256 div 256 div 256 mod 256),
     of_nat (v div 256 div 256 div 256 div 256 div 256 div 256 mod 256),
     of_nat (v div 256 div 256 div 256 div 256 div 256 div 256 div 256 mod 256)]"
proof -
  have "(8::nat) = Suc (Suc (Suc (Suc (Suc (Suc (Suc (Suc 0)))))))"
    by simp
  then show ?thesis
    by (simp only: le_bytes.simps)
qed

lemma le_bytes_4:
  "le_bytes 4 v = [of_nat (v mod 256), of_nat (v div 256 mod 256),
     of_nat (v div 256 div 256 mod 256), of_nat (v div 256 div 256 div 256 mod 256)]"
proof -
  have "(4::nat) = Suc (Suc (Suc (Suc 0)))"
    by simp
  then show ?thesis
    by (simp only: le_bytes.simps)
qed

lemma upt64:
  "[0..<64] = [0, 1, 2, 3, 4, 5, 6, 7]
     @ [8, 9, 10, 11, 12, 13, 14, 15]
     @ [16, 17, 18, 19, 20, 21, 22, 23]
     @ [24, 25, 26, 27, 28, 29, 30, 31]
     @ [32, 33, 34, 35, 36, 37, 38, 39]
     @ [40, 41, 42, 43, 44, 45, 46, 47]
     @ [48, 49, 50, 51, 52, 53, 54, 55]
     @ [56, 57, 58, 59, 60, 61, 62, 63]"
  by code_simp

lemma collision_a1_steps_0:
  "foldl (md5_step [0x02dd31d1, 0xc4eee6c5, 0x069a3d69, 0x5cf9af98,
                     0x87b5ca2f, 0xab7e4612, 0x3e580440, 0x897ffbb8,
                     0x0634ad55, 0x02b3f409, 0x8388e483, 0x5a417125,
                     0xe8255108, 0x9fc9cdf7, 0xf2bd1dd9, 0x5b3c3780])
     (0x67452301, 0xefcdab89, 0x98badcfe, 0x10325476) [0, 1, 2, 3, 4, 5, 6, 7]
   = (0x88400025, 0x01b11540, 0x03fef820, 0x027fbc41)"
  by (simp add: md5_step_def md5_K_def md5_s_def rotl32_def Let_def)

lemma collision_a1_steps_8:
  "foldl (md5_step [0x02dd31d1, 0xc4eee6c5, 0x069a3d69, 0x5cf9af98,
                     0x87b5ca2f, 0xab7e4612, 0x3e580440, 0x897ffbb8,
                     0x0634ad55, 0x02b3f409, 0x8388e483, 0x5a417125,
                     0xe8255108, 0x9fc9cdf7, 0xf2bd1dd9, 0x5b3c3780])
     (0x88400025, 0x01b11540, 0x03fef820, 0x027fbc41) [8, 9, 10, 11, 12, 13, 14, 15]
   = (0x715ff408, 0x2d8b8334, 0x715d8a20, 0x14cbf5f8)"
  by (simp add: md5_step_def md5_K_def md5_s_def rotl32_def Let_def)

lemma collision_a1_steps_16:
  "foldl (md5_step [0x02dd31d1, 0xc4eee6c5, 0x069a3d69, 0x5cf9af98,
                     0x87b5ca2f, 0xab7e4612, 0x3e580440, 0x897ffbb8,
                     0x0634ad55, 0x02b3f409, 0x8388e483, 0x5a417125,
                     0xe8255108, 0x9fc9cdf7, 0xf2bd1dd9, 0x5b3c3780])
     (0x715ff408, 0x2d8b8334, 0x715d8a20, 0x14cbf5f8) [16, 17, 18, 19, 20, 21, 22, 23]
   = (0x69a9e2ca, 0x9b5d31d2, 0x7e7d7849, 0x72b1b3a4)"
  by (simp add: md5_step_def md5_K_def md5_s_def rotl32_def Let_def)

lemma collision_a1_steps_24:
  "foldl (md5_step [0x02dd31d1, 0xc4eee6c5, 0x069a3d69, 0x5cf9af98,
                     0x87b5ca2f, 0xab7e4612, 0x3e580440, 0x897ffbb8,
                     0x0634ad55, 0x02b3f409, 0x8388e483, 0x5a417125,
                     0xe8255108, 0x9fc9cdf7, 0xf2bd1dd9, 0x5b3c3780])
     (0x69a9e2ca, 0x9b5d31d2, 0x7e7d7849, 0x72b1b3a4) [24, 25, 26, 27, 28, 29, 30, 31]
   = (0x58dd88c2, 0x8f25d190, 0x9f30104a, 0x539b9c53)"
  by (simp add: md5_step_def md5_K_def md5_s_def rotl32_def Let_def)

lemma collision_a1_steps_32:
  "foldl (md5_step [0x02dd31d1, 0xc4eee6c5, 0x069a3d69, 0x5cf9af98,
                     0x87b5ca2f, 0xab7e4612, 0x3e580440, 0x897ffbb8,
                     0x0634ad55, 0x02b3f409, 0x8388e483, 0x5a417125,
                     0xe8255108, 0x9fc9cdf7, 0xf2bd1dd9, 0x5b3c3780])
     (0x58dd88c2, 0x8f25d190, 0x9f30104a, 0x539b9c53) [32, 33, 34, 35, 36, 37, 38, 39]
   = (0x78eefe75, 0xa6a68057, 0xf8f16f22, 0x94858cd3)"
  by (simp add: md5_step_def md5_K_def md5_s_def rotl32_def Let_def)

lemma collision_a1_steps_40:
  "foldl (md5_step [0x02dd31d1, 0xc4eee6c5, 0x069a3d69, 0x5cf9af98,
                     0x87b5ca2f, 0xab7e4612, 0x3e580440, 0x897ffbb8,
                     0x0634ad55, 0x02b3f409, 0x8388e483, 0x5a417125,
                     0xe8255108, 0x9fc9cdf7, 0xf2bd1dd9, 0x5b3c3780])
     (0x78eefe75, 0xa6a68057, 0xf8f16f22, 0x94858cd3) [40, 41, 42, 43, 44, 45, 46, 47]
   = (0x32958a0a, 0x163e312a, 0xb8379d04, 0x4bd07f3f)"
  by (simp add: md5_step_def md5_K_def md5_s_def rotl32_def Let_def)

lemma collision_a1_steps_48:
  "foldl (md5_step [0x02dd31d1, 0xc4eee6c5, 0x069a3d69, 0x5cf9af98,
                     0x87b5ca2f, 0xab7e4612, 0x3e580440, 0x897ffbb8,
                     0x0634ad55, 0x02b3f409, 0x8388e483, 0x5a417125,
                     0xe8255108, 0x9fc9cdf7, 0xf2bd1dd9, 0x5b3c3780])
     (0x32958a0a, 0x163e312a, 0xb8379d04, 0x4bd07f3f) [48, 49, 50, 51, 52, 53, 54, 55]
   = (0x9d73259f, 0x9e00cbe7, 0xbff44c18, 0x8b4efcde)"
  by (simp add: md5_step_def md5_K_def md5_s_def rotl32_def Let_def)

lemma collision_a1_steps_56:
  "foldl (md5_step [0x02dd31d1, 0xc4eee6c5, 0x069a3d69, 0x5cf9af98,
                     0x87b5ca2f, 0xab7e4612, 0x3e580440, 0x897ffbb8,
                     0x0634ad55, 0x02b3f409, 0x8388e483, 0x5a417125,
                     0xe8255108, 0x9fc9cdf7, 0xf2bd1dd9, 0x5b3c3780])
     (0x9d73259f, 0x9e00cbe7, 0xbff44c18, 0x8b4efcde) [56, 57, 58, 59, 60, 61, 62, 63]
   = (0xeb137023, 0x40c62c41, 0x914bff56, 0x10936990)"
  by (simp add: md5_step_def md5_K_def md5_s_def rotl32_def Let_def)

lemma collision_a1_block:
  "md5_block md5_init (take 64 collision_a) = (0x52589324, 0x3093d7ca, 0x2a06dc54, 0x20c5be06)"
proof -
  have words: "map le_word (chunks 4 (take 64 collision_a))
      = [0x02dd31d1, 0xc4eee6c5, 0x069a3d69, 0x5cf9af98,
         0x87b5ca2f, 0xab7e4612, 0x3e580440, 0x897ffbb8,
         0x0634ad55, 0x02b3f409, 0x8388e483, 0x5a417125,
         0xe8255108, 0x9fc9cdf7, 0xf2bd1dd9, 0x5b3c3780]"
    by (simp add: collision_a_def)
  show ?thesis
    unfolding md5_block_def words upt64 foldl_append md5_init_def
      collision_a1_steps_0 collision_a1_steps_8 collision_a1_steps_16 collision_a1_steps_24
      collision_a1_steps_32 collision_a1_steps_40 collision_a1_steps_48 collision_a1_steps_56
    by simp
qed

lemma collision_a2_steps_0:
  "foldl (md5_step [0x313e82d8, 0x5b8f3456, 0xd4ac6dae, 0xc619c936,
                     0xb4e253dd, 0xfd03da87, 0x06633902, 0xa0cd48d2,
                     0x42339fe9, 0xe87e570f, 0x70b654ce, 0x1e0da880,
                     0xbc2198c6, 0x9383a8b6, 0x2b65f996, 0x702af76f])
     (0x52589324, 0x3093d7ca, 0x2a06dc54, 0x20c5be06) [0, 1, 2, 3, 4, 5, 6, 7]
   = (0x492fae50, 0x84328ff4, 0xf7091e19, 0x456e4c56)"
  by (simp add: md5_step_def md5_K_def md5_s_def rotl32_def Let_def)

lemma collision_a2_steps_8:
  "foldl (md5_step [0x313e82d8, 0x5b8f3456, 0xd4ac6dae, 0xc619c936,
                     0xb4e253dd, 0xfd03da87, 0x06633902, 0xa0cd48d2,
                     0x42339fe9, 0xe87e570f, 0x70b654ce, 0x1e0da880,
                     0xbc2198c6, 0x9383a8b6, 0x2b65f996, 0x702af76f])
     (0x492fae50, 0x84328ff4, 0xf7091e19, 0x456e4c56) [8, 9, 10, 11, 12, 13, 14, 15]
   = (0x3f1ff45d, 0x612bbbd5, 0x7dc41b11, 0x40fbf2ff)"
  by (simp add: md5_step_def md5_K_def md5_s_def rotl32_def Let_def)

lemma collision_a2_steps_16:
  "foldl (md5_step [0x313e82d8, 0x5b8f3456, 0xd4ac6dae, 0xc619c936,
                     0xb4e253dd, 0xfd03da87, 0x06633902, 0xa0cd48d2,
                     0x42339fe9, 0xe87e570f, 0x70b654ce, 0x1e0da880,
                     0xbc2198c6, 0x9383a8b6, 0x2b65f996, 0x702af76f])
     (0x3f1ff45d, 0x612bbbd5, 0x7dc41b11, 0x40fbf2ff) [16, 17, 18, 19, 20, 21, 22, 23]
   = (0x32e59a7c, 0xd5280918, 0x136a433c, 0x11b3a43a)"
  by (simp add: md5_step_def md5_K_def md5_s_def rotl32_def Let_def)

lemma collision_a2_steps_24:
  "foldl (md5_step [0x313e82d8, 0x5b8f3456, 0xd4ac6dae, 0xc619c936,
                     0xb4e253dd, 0xfd03da87, 0x06633902, 0xa0cd48d2,
                     0x42339fe9, 0xe87e570f, 0x70b654ce, 0x1e0da880,
                     0xbc2198c6, 0x9383a8b6, 0x2b65f996, 0x702af76f])
     (0x32e59a7c, 0xd5280918, 0x136a433c, 0x11b3a43a) [24, 25, 26, 27, 28, 29, 30, 31]
   = (0x82f21f91, 0x0839b297, 0x644e3eb8, 0x2ea5ed6f)"
  by (simp add: md5_step_def md5_K_def md5_s_def rotl32_def Let_def)

lemma collision_a2_steps_32:
  "foldl (md5_step [0x313e82d8, 0x5b8f3456, 0xd4ac6dae, 0xc619c936,
                     0xb4e253dd, 0xfd03da87, 0x06633902, 0xa0cd48d2,
                     0x42339fe9, 0xe87e570f, 0x70b654ce, 0x1e0da880,
                     0xbc2198c6, 0x9383a8b6, 0x2b65f996, 0x702af76f])
     (0x82f21f91, 0x0839b297, 0x644e3eb8, 0x2ea5ed6f) [32, 33, 34, 35, 36, 37, 38, 39]
   = (0x68cbed28, 0x26e202a5, 0xc82d4db2, 0xc4105190)"
  by (simp add: md5_step_def md5_K_def md5_s_def rotl32_def Let_def)

lemma collision_a2_steps_40:
  "foldl (md5_step [0x313e82d8, 0x5b8f3456, 0xd4ac6dae, 0xc619c936,
                     0xb4e253dd, 0xfd03da87, 0x06633902, 0xa0cd48d2,
                     0x42339fe9, 0xe87e570f, 0x70b654ce, 0x1e0da880,
                     0xbc2198c6, 0x9383a8b6, 0x2b65f996, 0x702af76f])
     (0x68cbed28, 0x26e202a5, 0xc82d4db2, 0xc4105190) [40, 41, 42, 43, 44, 45, 46, 47]
   = (0xc3b50242, 0x03095eae, 0x33f7b4e6, 0x70ae9f1e)"
  by (simp add: md5_step_def md5_K_def md5_s_def rotl32_def Let_def)

lemma collision_a2_steps_48:
  "foldl (md5_step [0x313e82d8, 0x5b8f3456, 0xd4ac6dae, 0xc619c936,
                     0xb4e253dd, 0xfd03da87, 0x06633902, 0xa0cd48d2,
                     0x42339fe9, 0xe87e570f, 0x70b654ce, 0x1e0da880,
                     0xbc2198c6, 0x9383a8b6, 0x2b65f996, 0x702af76f])
     (0xc3b50242, 0x03095eae, 0x33f7b4e6, 0x70ae9f1e) [48, 49, 50, 51, 52, 53, 54, 55]
   = (0x651095a7, 0xdfccd62a, 0x114b3a3d, 0xb58411b5)"
  by (simp add: md5_step_def md5_K_def md5_s_def rotl32_def Let_def)

lemma collision_a2_steps_56:
  "foldl (md5_step [0x313e82d8, 0x5b8f3456, 0xd4ac6dae, 0xc619c936,
                     0xb4e253dd, 0xfd03da87, 0x06633902, 0xa0cd48d2,
                     0x42339fe9, 0xe87e570f, 0x70b654ce, 0x1e0da880,
                     0xbc2198c6, 0x9383a8b6, 0x2b65f996, 0x702af76f])
     (0x651095a7, 0xdfccd62a, 0x114b3a3d, 0xb58411b5) [56, 57, 58, 59, 60, 61, 62, 63]
   = (0x3b05dcf5, 0x30ec763e, 0x47568f04, 0x425f020f)"
  by (simp add: md5_step_def md5_K_def md5_s_def rotl32_def Let_def)

lemma collision_a2_block:
  "md5_block (0x52589324, 0x3093d7ca, 0x2a06dc54, 0x20c5be06) (drop 64 collision_a) = (0x8d5e7019, 0x61804e08, 0x715d6b58, 0x6324c015)"
proof -
  have words: "map le_word (chunks 4 (drop 64 collision_a))
      = [0x313e82d8, 0x5b8f3456, 0xd4ac6dae, 0xc619c936,
         0xb4e253dd, 0xfd03da87, 0x06633902, 0xa0cd48d2,
         0x42339fe9, 0xe87e570f, 0x70b654ce, 0x1e0da880,
         0xbc2198c6, 0x9383a8b6, 0x2b65f996, 0x702af76f]"
    by (simp add: collision_a_def)
  show ?thesis
    unfolding md5_block_def words upt64 foldl_append
      collision_a2_steps_0 collision_a2_steps_8 collision_a2_steps_16 collision_a2_steps_24
      collision_a2_steps_32 collision_a2_steps_40 collision_a2_steps_48 collision_a2_steps_56
    by simp
qed

lemma collision_b1_steps_0:
  "foldl (md5_step [0x02dd31d1, 0xc4eee6c5, 0x069a3d69, 0x5cf9af98,
                     0x07b5ca2f, 0xab7e4612, 0x3e580440, 0x897ffbb8,
                     0x0634ad55, 0x02b3f409, 0x8388e483, 0x5a41f125,
                     0xe8255108, 0x9fc9cdf7, 0x72bd1dd9, 0x5b3c3780])
     (0x67452301, 0xefcdab89, 0x98badcfe, 0x10325476) [0, 1, 2, 3, 4, 5, 6, 7]
   = (0x883fffe5, 0x012e9541, 0xfc7ef7df, 0x82ffbc01)"
  by (simp add: md5_step_def md5_K_def md5_s_def rotl32_def Let_def)

lemma collision_b1_steps_8:
  "foldl (md5_step [0x02dd31d1, 0xc4eee6c5, 0x069a3d69, 0x5cf9af98,
                     0x07b5ca2f, 0xab7e4612, 0x3e580440, 0x897ffbb8,
                     0x0634ad55, 0x02b3f409, 0x8388e483, 0x5a41f125,
                     0xe8255108, 0x9fc9cdf7, 0x72bd1dd9, 0x5b3c3780])
     (0x883fffe5, 0x012e9541, 0xfc7ef7df, 0x82ffbc01) [8, 9, 10, 11, 12, 13, 14, 15]
   = (0xf25ff408, 0x8d8b8334, 0xf15d0a28, 0x94cbf5f8)"
  by (simp add: md5_step_def md5_K_def md5_s_def rotl32_def Let_def)

lemma collision_b1_steps_16:
  "foldl (md5_step [0x02dd31d1, 0xc4eee6c5, 0x069a3d69, 0x5cf9af98,
                     0x07b5ca2f, 0xab7e4612, 0x3e580440, 0x897ffbb8,
                     0x0634ad55, 0x02b3f409, 0x8388e483, 0x5a41f125,
                     0xe8255108, 0x9fc9cdf7, 0x72bd1dd9, 0x5b3c3780])
     (0xf25ff408, 0x8d8b8334, 0xf15d0a28, 0x94cbf5f8) [16, 17, 18, 19, 20, 21, 22, 23]
   = (0xe9a9e2ca, 0x9b5d31d2, 0x7e7d7849, 0xf2b1b3a4)"
  by (simp add: md5_step_def md5_K_def md5_s_def rotl32_def Let_def)

lemma collision_b1_steps_24:
  "foldl (md5_step [0x02dd31d1, 0xc4eee6c5, 0x069a3d69, 0x5cf9af98,
                     0x07b5ca2f, 0xab7e4612, 0x3e580440, 0x897ffbb8,
                     0x0634ad55, 0x02b3f409, 0x8388e483, 0x5a41f125,
                     0xe8255108, 0x9fc9cdf7, 0x72bd1dd9, 0x5b3c3780])
     (0xe9a9e2ca, 0x9b5d31d2, 0x7e7d7849, 0xf2b1b3a4) [24, 25, 26, 27, 28, 29, 30, 31]
   = (0x58dd88c2, 0x8f25d190, 0x9f30104a, 0x539b9c53)"
  by (simp add: md5_step_def md5_K_def md5_s_def rotl32_def Let_def)

lemma collision_b1_steps_32:
  "foldl (md5_step [0x02dd31d1, 0xc4eee6c5, 0x069a3d69, 0x5cf9af98,
                     0x07b5ca2f, 0xab7e4612, 0x3e580440, 0x897ffbb8,
                     0x0634ad55, 0x02b3f409, 0x8388e483, 0x5a41f125,
                     0xe8255108, 0x9fc9cdf7, 0x72bd1dd9, 0x5b3c3780])
     (0x58dd88c2, 0x8f25d190, 0x9f30104a, 0x539b9c53) [32, 33, 34, 35, 36, 37, 38, 39]
   = (0xf8eefe75, 0x26a68057, 0x78f16f22, 0x14858cd3)"
  by (simp add: md5_step_def md5_K_def md5_s_def rotl32_def Let_def)

lemma collision_b1_steps_40:
  "foldl (md5_step [0x02dd31d1, 0xc4eee6c5, 0x069a3d69, 0x5cf9af98,
                     0x07b5ca2f, 0xab7e4612, 0x3e580440, 0x897ffbb8,
                     0x0634ad55, 0x02b3f409, 0x8388e483, 0x5a41f125,
                     0xe8255108, 0x9fc9cdf7, 0x72bd1dd9, 0x5b3c3780])
     (0xf8eefe75, 0x26a68057, 0x78f16f22, 0x14858cd3) [40, 41, 42, 43, 44, 45, 46, 47]
   = (0xb2958a0a, 0x963e312a, 0x38379d04, 0xcbd07f3f)"
  by (simp add: md5_step_def md5_K_def md5_s_def rotl32_def Let_def)

lemma collision_b1_steps_48:
  "foldl (md5_step [0x02dd31d1, 0xc4eee6c5, 0x069a3d69, 0x5cf9af98,
                     0x07b5ca2f, 0xab7e4612, 0x3e580440, 0x897ffbb8,
                     0x0634ad55, 0x02b3f409, 0x8388e483, 0x5a41f125,
                     0xe8255108, 0x9fc9cdf7, 0x72bd1dd9, 0x5b3c3780])
     (0xb2958a0a, 0x963e312a, 0x38379d04, 0xcbd07f3f) [48, 49, 50, 51, 52, 53, 54, 55]
   = (0x1d73259f, 0x1e00cbe7, 0x3ff44c18, 0x0b4efcde)"
  by (simp add: md5_step_def md5_K_def md5_s_def rotl32_def Let_def)

lemma collision_b1_steps_56:
  "foldl (md5_step [0x02dd31d1, 0xc4eee6c5, 0x069a3d69, 0x5cf9af98,
                     0x07b5ca2f, 0xab7e4612, 0x3e580440, 0x897ffbb8,
                     0x0634ad55, 0x02b3f409, 0x8388e483, 0x5a41f125,
                     0xe8255108, 0x9fc9cdf7, 0x72bd1dd9, 0x5b3c3780])
     (0x1d73259f, 0x1e00cbe7, 0x3ff44c18, 0x0b4efcde) [56, 57, 58, 59, 60, 61, 62, 63]
   = (0x6b137023, 0xc2c62c41, 0x134bff56, 0x92936990)"
  by (simp add: md5_step_def md5_K_def md5_s_def rotl32_def Let_def)

lemma collision_b1_block:
  "md5_block md5_init (take 64 collision_b) = (0xd2589324, 0xb293d7ca, 0xac06dc54, 0xa2c5be06)"
proof -
  have words: "map le_word (chunks 4 (take 64 collision_b))
      = [0x02dd31d1, 0xc4eee6c5, 0x069a3d69, 0x5cf9af98,
         0x07b5ca2f, 0xab7e4612, 0x3e580440, 0x897ffbb8,
         0x0634ad55, 0x02b3f409, 0x8388e483, 0x5a41f125,
         0xe8255108, 0x9fc9cdf7, 0x72bd1dd9, 0x5b3c3780]"
    by (simp add: collision_b_def)
  show ?thesis
    unfolding md5_block_def words upt64 foldl_append md5_init_def
      collision_b1_steps_0 collision_b1_steps_8 collision_b1_steps_16 collision_b1_steps_24
      collision_b1_steps_32 collision_b1_steps_40 collision_b1_steps_48 collision_b1_steps_56
    by simp
qed

lemma collision_b2_steps_0:
  "foldl (md5_step [0x313e82d8, 0x5b8f3456, 0xd4ac6dae, 0xc619c936,
                     0x34e253dd, 0xfd03da87, 0x06633902, 0xa0cd48d2,
                     0x42339fe9, 0xe87e570f, 0x70b654ce, 0x1e0d2880,
                     0xbc2198c6, 0x9383a8b6, 0xab65f996, 0x702af76f])
     (0xd2589324, 0xb293d7ca, 0xac06dc54, 0xa2c5be06) [0, 1, 2, 3, 4, 5, 6, 7]
   = (0xc92fb191, 0x03b10ff4, 0x6f091dd9, 0xc55d4c56)"
  by (simp add: md5_step_def md5_K_def md5_s_def rotl32_def Let_def)

lemma collision_b2_steps_8:
  "foldl (md5_step [0x313e82d8, 0x5b8f3456, 0xd4ac6dae, 0xc619c936,
                     0x34e253dd, 0xfd03da87, 0x06633902, 0xa0cd48d2,
                     0x42339fe9, 0xe87e570f, 0x70b654ce, 0x1e0d2880,
                     0xbc2198c6, 0x9383a8b6, 0xab65f996, 0x702af76f])
     (0xc92fb191, 0x03b10ff4, 0x6f091dd9, 0xc55d4c56) [8, 9, 10, 11, 12, 13, 14, 15]
   = (0xc01ff45d, 0xc12bbbd5, 0xfdc49b19, 0xc0fbf2ff)"
  by (simp add: md5_step_def md5_K_def md5_s_def rotl32_def Let_def)

lemma collision_b2_steps_16:
  "foldl (md5_step [0x313e82d8, 0x5b8f3456, 0xd4ac6dae, 0xc619c936,
                     0x34e253dd, 0xfd03da87, 0x06633902, 0xa0cd48d2,
                     0x42339fe9, 0xe87e570f, 0x70b654ce, 0x1e0d2880,
                     0xbc2198c6, 0x9383a8b6, 0xab65f996, 0x702af76f])
     (0xc01ff45d, 0xc12bbbd5, 0xfdc49b19, 0xc0fbf2ff) [16, 17, 18, 19, 20, 21, 22, 23]
   = (0xb2e59a7c, 0xd5280918, 0x136a433c, 0x91b3a43a)"
  by (simp add: md5_step_def md5_K_def md5_s_def rotl32_def Let_def)

lemma collision_b2_steps_24:
  "foldl (md5_step [0x313e82d8, 0x5b8f3456, 0xd4ac6dae, 0xc619c936,
                     0x34e253dd, 0xfd03da87, 0x06633902, 0xa0cd48d2,
                     0x42339fe9, 0xe87e570f, 0x70b654ce, 0x1e0d2880,
                     0xbc2198c6, 0x9383a8b6, 0xab65f996, 0x702af76f])
     (0xb2e59a7c, 0xd5280918, 0x136a433c, 0x91b3a43a) [24, 25, 26, 27, 28, 29, 30, 31]
   = (0x82f21f91, 0x0839b297, 0x644e3eb8, 0x2ea5ed6f)"
  by (simp add: md5_step_def md5_K_def md5_s_def rotl32_def Let_def)

lemma collision_b2_steps_32:
  "foldl (md5_step [0x313e82d8, 0x5b8f3456, 0xd4ac6dae, 0xc619c936,
                     0x34e253dd, 0xfd03da87, 0x06633902, 0xa0cd48d2,
                     0x42339fe9, 0xe87e570f, 0x70b654ce, 0x1e0d2880,
                     0xbc2198c6, 0x9383a8b6, 0xab65f996, 0x702af76f])
     (0x82f21f91, 0x0839b297, 0x644e3eb8, 0x2ea5ed6f) [32, 33, 34, 35, 36, 37, 38, 39]
   = (0xe8cbed28, 0xa6e202a5, 0x482d4db2, 0x44105190)"
  by (simp add: md5_step_def md5_K_def md5_s_def rotl32_def Let_def)

lemma collision_b2_steps_40:
  "foldl (md5_step [0x313e82d8, 0x5b8f3456, 0xd4ac6dae, 0xc619c936,
                     0x34e253dd, 0xfd03da87, 0x06633902, 0xa0cd48d2,
                     0x42339fe9, 0xe87e570f, 0x70b654ce, 0x1e0d2880,
                     0xbc2198c6, 0x9383a8b6, 0xab65f996, 0x702af76f])
     (0xe8cbed28, 0xa6e202a5, 0x482d4db2, 0x44105190) [40, 41, 42, 43, 44, 45, 46, 47]
   = (0x43b50242, 0x83095eae, 0xb3f7b4e6, 0xf0ae9f1e)"
  by (simp add: md5_step_def md5_K_def md5_s_def rotl32_def Let_def)

lemma collision_b2_steps_48:
  "foldl (md5_step [0x313e82d8, 0x5b8f3456, 0xd4ac6dae, 0xc619c936,
                     0x34e253dd, 0xfd03da87, 0x06633902, 0xa0cd48d2,
                     0x42339fe9, 0xe87e570f, 0x70b654ce, 0x1e0d2880,
                     0xbc2198c6, 0x9383a8b6, 0xab65f996, 0x702af76f])
     (0x43b50242, 0x83095eae, 0xb3f7b4e6, 0xf0ae9f1e) [48, 49, 50, 51, 52, 53, 54, 55]
   = (0xe51095a7, 0x5fccd62a, 0x914b3a3d, 0x358411b5)"
  by (simp add: md5_step_def md5_K_def md5_s_def rotl32_def Let_def)

lemma collision_b2_steps_56:
  "foldl (md5_step [0x313e82d8, 0x5b8f3456, 0xd4ac6dae, 0xc619c936,
                     0x34e253dd, 0xfd03da87, 0x06633902, 0xa0cd48d2,
                     0x42339fe9, 0xe87e570f, 0x70b654ce, 0x1e0d2880,
                     0xbc2198c6, 0x9383a8b6, 0xab65f996, 0x702af76f])
     (0xe51095a7, 0x5fccd62a, 0x914b3a3d, 0x358411b5) [56, 57, 58, 59, 60, 61, 62, 63]
   = (0xbb05dcf5, 0xaeec763e, 0xc5568f04, 0xc05f020f)"
  by (simp add: md5_step_def md5_K_def md5_s_def rotl32_def Let_def)

lemma collision_b2_block:
  "md5_block (0xd2589324, 0xb293d7ca, 0xac06dc54, 0xa2c5be06) (drop 64 collision_b) = (0x8d5e7019, 0x61804e08, 0x715d6b58, 0x6324c015)"
proof -
  have words: "map le_word (chunks 4 (drop 64 collision_b))
      = [0x313e82d8, 0x5b8f3456, 0xd4ac6dae, 0xc619c936,
         0x34e253dd, 0xfd03da87, 0x06633902, 0xa0cd48d2,
         0x42339fe9, 0xe87e570f, 0x70b654ce, 0x1e0d2880,
         0xbc2198c6, 0x9383a8b6, 0xab65f996, 0x702af76f]"
    by (simp add: collision_b_def)
  show ?thesis
    unfolding md5_block_def words upt64 foldl_append
      collision_b2_steps_0 collision_b2_steps_8 collision_b2_steps_16 collision_b2_steps_24
      collision_b2_steps_32 collision_b2_steps_40 collision_b2_steps_48 collision_b2_steps_56
    by simp
qed

lemma collision_tail_steps_0:
  "foldl (md5_step [0x00000080, 0x00000000, 0x00000000, 0x00000000,
                     0x00000000, 0x00000000, 0x00000000, 0x00000000,
                     0x00000000, 0x00000000, 0x00000000, 0x00000000,
                     0x00000000, 0x00000000, 0x00000400, 0x00000000])
     (0x8d5e7019, 0x61804e08, 0x715d6b58, 0x6324c015) [0, 1, 2, 3, 4, 5, 6, 7]
   = (0xbc539c8e, 0x7964d900, 0xa03dfa9c, 0xc84e236f)"
  by (simp add: md5_step_def md5_K_def md5_s_def rotl32_def Let_def)

lemma collision_tail_steps_8:
  "foldl (md5_step [0x00000080, 0x00000000, 0x00000000, 0x00000000,
                     0x00000000, 0x00000000, 0x00000000, 0x00000000,
                     0x00000000, 0x00000000, 0x00000000, 0x00000000,
                     0x00000000, 0x00000000, 0x00000400, 0x00000000])
     (0xbc539c8e, 0x7964d900, 0xa03dfa9c, 0xc84e236f) [8, 9, 10, 11, 12, 13, 14, 15]
   = (0x0009f9e5, 0xe7cfa008, 0xad84b5c7, 0x7dd3b044)"
  by (simp add: md5_step_def md5_K_def md5_s_def rotl32_def Let_def)

lemma collision_tail_steps_16:
  "foldl (md5_step [0x00000080, 0x00000000, 0x00000000, 0x00000000,
                     0x00000000, 0x00000000, 0x00000000, 0x00000000,
                     0x00000000, 0x00000000, 0x00000000, 0x00000000,
                     0x00000000, 0x00000000, 0x00000400, 0x00000000])
     (0x0009f9e5, 0xe7cfa008, 0xad84b5c7, 0x7dd3b044) [16, 17, 18, 19, 20, 21, 22, 23]
   = (0x4a9649cb, 0x8f3caf44, 0xe4ba2c86, 0x22f1e1cd)"
  by (simp add: md5_step_def md5_K_def md5_s_def rotl32_def Let_def)

lemma collision_tail_steps_24:
  "foldl (md5_step [0x00000080, 0x00000000, 0x00000000, 0x00000000,
                     0x00000000, 0x00000000, 0x00000000, 0x00000000,
                     0x00000000, 0x00000000, 0x00000000, 0x00000000,
                     0x00000000, 0x00000000, 0x00000400, 0x00000000])
     (0x4a9649cb, 0x8f3caf44, 0xe4ba2c86, 0x22f1e1cd) [24, 25, 26, 27, 28, 29, 30, 31]
   = (0x7df63c4b, 0x830eb7ee, 0x71c883fd, 0x67c7a9cc)"
  by (simp add: md5_step_def md5_K_def md5_s_def rotl32_def Let_def)

lemma collision_tail_steps_32:
  "foldl (md5_step [0x00000080, 0x00000000, 0x00000000, 0x00000000,
                     0x00000000, 0x00000000, 0x00000000, 0x00000000,
                     0x00000000, 0x00000000, 0x00000000, 0x00000000,
                     0x00000000, 0x00000000, 0x00000400, 0x00000000])
     (0x7df63c4b, 0x830eb7ee, 0x71c883fd, 0x67c7a9cc) [32, 33, 34, 35, 36, 37, 38, 39]
   = (0x1ac968ad, 0xc73bde85, 0xb4029def, 0x3f788adf)"
  by (simp add: md5_step_def md5_K_def md5_s_def rotl32_def Let_def)

lemma collision_tail_steps_40:
  "foldl (md5_step [0x00000080, 0x00000000, 0x00000000, 0x00000000,
                     0x00000000, 0x00000000, 0x00000000, 0x00000000,
                     0x00000000, 0x00000000, 0x00000000, 0x00000000,
                     0x00000000, 0x00000000, 0x00000400, 0x00000000])
     (0x1ac968ad, 0xc73bde85, 0xb4029def, 0x3f788adf) [40, 41, 42, 43, 44, 45, 46, 47]
   = (0x899ff100, 0x2710e0ea, 0x781abf3c, 0xb42b8f7b)"
  by (simp add: md5_step_def md5_K_def md5_s_def rotl32_def Let_def)

lemma collision_tail_steps_48:
  "foldl (md5_step [0x00000080, 0x00000000, 0x00000000, 0x00000000,
                     0x00000000, 0x00000000, 0x00000000, 0x00000000,
                     0x00000000, 0x00000000, 0x00000000, 0x00000000,
                     0x00000000, 0x00000000, 0x00000400, 0x00000000])
     (0x899ff100, 0x2710e0ea, 0x781abf3c, 0xb42b8f7b) [48, 49, 50, 51, 52, 53, 54, 55]
   = (0xd41d5737, 0x12985877, 0xf3d5d0ed, 0xe9e5eb05)"
  by (simp add: md5_step_def md5_K_def md5_s_def rotl32_def Let_def)

lemma collision_tail_steps_56:
  "foldl (md5_step [0x00000080, 0x00000000, 0x00000000, 0x00000000,
                     0x00000000, 0x00000000, 0x00000000, 0x00000000,
                     0x00000000, 0x00000000, 0x00000000, 0x00000000,
                     0x00000000, 0x00000000, 0x00000400, 0x00000000])
     (0xd41d5737, 0x12985877, 0xf3d5d0ed, 0xe9e5eb05) [56, 57, 58, 59, 60, 61, 62, 63]
   = (0x97e19560, 0x4131111d, 0xb166e016, 0x512a3599)"
  by (simp add: md5_step_def md5_K_def md5_s_def rotl32_def Let_def)

lemma collision_tail_block:
  "md5_block (0x8d5e7019, 0x61804e08, 0x715d6b58, 0x6324c015) (0x80 # replicate 55 0 @ le_bytes 8 1024) = (0x25400579, 0xa2b15f25, 0x22c44b6e, 0xb44ef5ae)"
proof -
  have words: "map le_word (chunks 4 (0x80 # replicate 55 0 @ le_bytes 8 1024))
      = [0x00000080, 0x00000000, 0x00000000, 0x00000000,
         0x00000000, 0x00000000, 0x00000000, 0x00000000,
         0x00000000, 0x00000000, 0x00000000, 0x00000000,
         0x00000000, 0x00000000, 0x00000400, 0x00000000]"
    by code_simp
  show ?thesis
    unfolding md5_block_def words upt64 foldl_append
      collision_tail_steps_0 collision_tail_steps_8 collision_tail_steps_16 collision_tail_steps_24
      collision_tail_steps_32 collision_tail_steps_40 collision_tail_steps_48 collision_tail_steps_56
    by simp
qed

lemma empty_steps_0:
  "foldl (md5_step [0x00000080, 0x00000000, 0x00000000, 0x00000000,
                     0x00000000, 0x00000000, 0x00000000, 0x00000000,
                     0x00000000, 0x00000000, 0x00000000, 0x00000000,
                     0x00000000, 0x00000000, 0x00000000, 0x00000000])
     (0x67452301, 0xefcdab89, 0x98badcfe, 0x10325476) [0, 1, 2, 3, 4, 5, 6, 7]
   = (0x32033344, 0x9bc13ce9, 0xf5b158db, 0x2f35d494)"
  by (simp add: md5_step_def md5_K_def md5_s_def rotl32_def Let_def)

lemma empty_steps_8:
  "foldl (md5_step [0x00000080, 0x00000000, 0x00000000, 0x00000000,
                     0x00000000, 0x00000000, 0x00000000, 0x00000000,
                     0x00000000, 0x00000000, 0x00000000, 0x00000000,
                     0x00000000, 0x00000000, 0x00000000, 0x00000000])
     (0x32033344, 0x9bc13ce9, 0xf5b158db, 0x2f35d494) [8, 9, 10, 11, 12, 13, 14, 15]
   = (0xf56c7cf1, 0xd6819c6a, 0x5aa53f75, 0x374943a7)"
  by (simp add: md5_step_def md5_K_def md5_s_def rotl32_def Let_def)

lemma empty_steps_16:
  "foldl (md5_step [0x00000080, 0x00000000, 0x00000000, 0x00000000,
                     0x00000000, 0x00000000, 0x00000000, 0x00000000,
                     0x00000000, 0x00000000, 0x00000000, 0x00000000,
                     0x00000000, 0x00000000, 0x00000000, 0x00000000])
     (0xf56c7cf1, 0xd6819c6a, 0x5aa53f75, 0x374943a7) [16, 17, 18, 19, 20, 21, 22, 23]
   = (0x3d1e3e6c, 0xe422531a, 0xeb41643e, 0x68b7b3e3)"
  by (simp add: md5_step_def md5_K_def md5_s_def rotl32_def Let_def)

lemma empty_steps_24:
  "foldl (md5_step [0x00000080, 0x00000000, 0x00000000, 0x00000000,
                     0x00000000, 0x00000000, 0x00000000, 0x00000000,
                     0x00000000, 0x00000000, 0x00000000, 0x00000000,
                     0x00000000, 0x00000000, 0x00000000, 0x00000000])
     (0x3d1e3e6c, 0xe422531a, 0xeb41643e, 0x68b7b3e3) [24, 25, 26, 27, 28, 29, 30, 31]
   = (0x13707036, 0xa2205f1f, 0x1c31c384, 0xae7813db)"
  by (simp add: md5_step_def md5_K_def md5_s_def rotl32_def Let_def)

lemma empty_steps_32:
  "foldl (md5_step [0x00000080, 0x00000000, 0x00000000, 0x00000000,
                     0x00000000, 0x00000000, 0x00000000, 0x00000000,
                     0x00000000, 0x00000000, 0x00000000, 0x00000000,
                     0x00000000, 0x00000000, 0x00000000, 0x00000000])
     (0x13707036, 0xa2205f1f, 0x1c31c384, 0xae7813db) [32, 33, 34, 35, 36, 37, 38, 39]
   = (0x5f7a9b2e, 0xc5dc8c15, 0x91ca4cb7, 0xabc34e16)"
  by (simp add: md5_step_def md5_K_def md5_s_def rotl32_def Let_def)

lemma empty_steps_40:
  "foldl (md5_step [0x00000080, 0x00000000, 0x00000000, 0x00000000,
                     0x00000000, 0x00000000, 0x00000000, 0x00000000,
                     0x00000000, 0x00000000, 0x00000000, 0x00000000,
                     0x00000000, 0x00000000, 0x00000000, 0x00000000])
     (0x5f7a9b2e, 0xc5dc8c15, 0x91ca4cb7, 0xabc34e16) [40, 41, 42, 43, 44, 45, 46, 47]
   = (0x3f55edfd, 0xca7d2dbd, 0x68d84ea2, 0x22a31f54)"
  by (simp add: md5_step_def md5_K_def md5_s_def rotl32_def Let_def)

lemma empty_steps_48:
  "foldl (md5_step [0x00000080, 0x00000000, 0x00000000, 0x00000000,
                     0x00000000, 0x00000000, 0x00000000, 0x00000000,
                     0x00000000, 0x00000000, 0x00000000, 0x00000000,
                     0x00000000, 0x00000000, 0x00000000, 0x00000000])
     (0x3f55edfd, 0xca7d2dbd, 0x68d84ea2, 0x22a31f54) [48, 49, 50, 51, 52, 53, 54, 55]
   = (0x5625a114, 0x1e77fa61, 0x392ad0d0, 0x3450f42b)"
  by (simp add: md5_step_def md5_K_def md5_s_def rotl32_def Let_def)

lemma empty_steps_56:
  "foldl (md5_step [0x00000080, 0x00000000, 0x00000000, 0x00000000,
                     0x00000000, 0x00000000, 0x00000000, 0x00000000,
                     0x00000000, 0x00000000, 0x00000000, 0x00000000,
                     0x00000000, 0x00000000, 0x00000000, 0x00000000])
     (0x5625a114, 0x1e77fa61, 0x392ad0d0, 0x3450f42b) [56, 57, 58, 59, 60, 61, 62, 63]
   = (0x7246fad3, 0x14e45506, 0xff4ea3eb, 0x6e10a476)"
  by (simp add: md5_step_def md5_K_def md5_s_def rotl32_def Let_def)

lemma empty_block:
  "md5_block md5_init (0x80 # replicate 55 0 @ le_bytes 8 0) = (0xd98c1dd4, 0x04b2008f, 0x980980e9, 0x7e42f8ec)"
proof -
  have words: "map le_word (chunks 4 (0x80 # replicate 55 0 @ le_bytes 8 0))
      = [0x00000080, 0x00000000, 0x00000000, 0x00000000,
         0x00000000, 0x00000000, 0x00000000, 0x00000000,
         0x00000000, 0x00000000, 0x00000000, 0x00000000,
         0x00000000, 0x00000000, 0x00000000, 0x00000000]"
    by code_simp
  show ?thesis
    unfolding md5_block_def words upt64 foldl_append md5_init_def
      empty_steps_0 empty_steps_8 empty_steps_16 empty_steps_24
      empty_steps_32 empty_steps_40 empty_steps_48 empty_steps_56
    by simp
qed

lemma abc_steps_0:
  "foldl (md5_step [0x80636261, 0x00000000, 0x00000000, 0x00000000,
                     0x00000000, 0x00000000, 0x00000000, 0x00000000,
                     0x00000000, 0x00000000, 0x00000000, 0x00000000,
                     0x00000000, 0x00000000, 0x00000018, 0x00000000])
     (0x67452301, 0xefcdab89, 0x98badcfe, 0x10325476) [0, 1, 2, 3, 4, 5, 6, 7]
   = (0xc73741ef, 0x928d99f6, 0x207dc67b, 0x8bac3051)"
  by (simp add: md5_step_def md5_K_def md5_s_def rotl32_def Let_def)

lemma abc_steps_8:
  "foldl (md5_step [0x80636261, 0x00000000, 0x00000000, 0x00000000,
                     0x00000000, 0x00000000, 0x00000000, 0x00000000,
                     0x00000000, 0x00000000, 0x00000000, 0x00000000,
                     0x00000000, 0x00000000, 0x00000018, 0x00000000])
     (0xc73741ef, 0x928d99f6, 0x207dc67b, 0x8bac3051) [8, 9, 10, 11, 12, 13, 14, 15]
   = (0xdda9b9a6, 0x72aff2e0, 0xe396856b, 0xa1051895)"
  by (simp add: md5_step_def md5_K_def md5_s_def rotl32_def Let_def)

lemma abc_steps_16:
  "foldl (md5_step [0x80636261, 0x00000000, 0x00000000, 0x00000000,
                     0x00000000, 0x00000000, 0x00000000, 0x00000000,
                     0x00000000, 0x00000000, 0x00000000, 0x00000000,
                     0x00000000, 0x00000000, 0x00000018, 0x00000000])
     (0xdda9b9a6, 0x72aff2e0, 0xe396856b, 0xa1051895) [16, 17, 18, 19, 20, 21, 22, 23]
   = (0x59a8ffda, 0x47092c07, 0xabfc7920, 0x6d002f1e)"
  by (simp add: md5_step_def md5_K_def md5_s_def rotl32_def Let_def)

lemma abc_steps_24:
  "foldl (md5_step [0x80636261, 0x00000000, 0x00000000, 0x00000000,
                     0x00000000, 0x00000000, 0x00000000, 0x00000000,
                     0x00000000, 0x00000000, 0x00000000, 0x00000000,
                     0x00000000, 0x00000000, 0x00000018, 0x00000000])
     (0x59a8ffda, 0x47092c07, 0xabfc7920, 0x6d002f1e) [24, 25, 26, 27, 28, 29, 30, 31]
   = (0x790a77fb, 0x726342d3, 0xa62884aa, 0x9f47e4f8)"
  by (simp add: md5_step_def md5_K_def md5_s_def rotl32_def Let_def)

lemma abc_steps_32:
  "foldl (md5_step [0x80636261, 0x00000000, 0x00000000, 0x00000000,
                     0x00000000, 0x00000000, 0x00000000, 0x00000000,
                     0x00000000, 0x00000000, 0x00000000, 0x00000000,
                     0x00000000, 0x00000000, 0x00000018, 0x00000000])
     (0x790a77fb, 0x726342d3, 0xa62884aa, 0x9f47e4f8) [32, 33, 34, 35, 36, 37, 38, 39]
   = (0x21b117b9, 0x5a2f5ea5, 0x3575227e, 0x6e7429d5)"
  by (simp add: md5_step_def md5_K_def md5_s_def rotl32_def Let_def)

lemma abc_steps_40:
  "foldl (md5_step [0x80636261, 0x00000000, 0x00000000, 0x00000000,
                     0x00000000, 0x00000000, 0x00000000, 0x00000000,
                     0x00000000, 0x00000000, 0x00000000, 0x00000000,
                     0x00000000, 0x00000000, 0x00000018, 0x00000000])
     (0x21b117b9, 0x5a2f5ea5, 0x3575227e, 0x6e7429d5) [40, 41, 42, 43, 44, 45, 46, 47]
   = (0x7f2e507b, 0x7beb9700, 0x8fae6399, 0x99d9679d)"
  by (simp add: md5_step_def md5_K_def md5_s_def rotl32_def Let_def)

lemma abc_steps_48:
  "foldl (md5_step [0x80636261, 0x00000000, 0x00000000, 0x00000000,
                     0x00000000, 0x00000000, 0x00000000, 0x00000000,
                     0x00000000, 0x00000000, 0x00000000, 0x00000000,
                     0x00000000, 0x00000000, 0x00000018, 0x00000000])
     (0x7f2e507b, 0x7beb9700, 0x8fae6399, 0x99d9679d) [48, 49, 50, 51, 52, 53, 54, 55]
   = (0x06cc5e8a, 0x3bfa2c27, 0x7d632dd0, 0x5b0d97aa)"
  by (simp add: md5_step_def md5_K_def md5_s_def rotl32_def Let_def)

lemma abc_steps_56:
  "foldl (md5_step [0x80636261, 0x00000000, 0x00000000, 0x00000000,
                     0x00000000, 0x00000000, 0x00000000, 0x00000000,
                     0x00000000, 0x00000000, 0x00000000, 0x00000000,
                     0x00000000, 0x00000000, 0x00000018, 0x00000000])
     (0x06cc5e8a, 0x3bfa2c27, 0x7d632dd0, 0x5b0d97aa) [56, 57, 58, 59, 60, 61, 62, 63]
   = (0x310ade8f, 0xc08226b3, 0xe484b9d8, 0x624d8cb2)"
  by (simp add: md5_step_def md5_K_def md5_s_def rotl32_def Let_def)

lemma abc_block:
  "md5_block md5_init ([0x61, 0x62, 0x63, 0x80] @ replicate 52 0 @ le_bytes 8 24) = (0x98500190, 0xb04fd23c, 0x7d3f96d6, 0x727fe128)"
proof -
  have words: "map le_word (chunks 4 ([0x61, 0x62, 0x63, 0x80] @ replicate 52 0 @ le_bytes 8 24))
      = [0x80636261, 0x00000000, 0x00000000, 0x00000000,
         0x00000000, 0x00000000, 0x00000000, 0x00000000,
         0x00000000, 0x00000000, 0x00000000, 0x00000000,
         0x00000000, 0x00000000, 0x00000018, 0x00000000]"
    by code_simp
  show ?thesis
    unfolding md5_block_def words upt64 foldl_append md5_init_def
      abc_steps_0 abc_steps_8 abc_steps_16 abc_steps_24
      abc_steps_32 abc_steps_40 abc_steps_48 abc_steps_56
    by simp
qed

lemma md5_collision_a:
  "md5 collision_a
     = [0x79, 0x05, 0x40, 0x25, 0x25, 0x5f, 0xb1, 0xa2, 0x6e, 0x4b, 0xc4, 0x22, 0xae, 0xf5, 0x4e, 0xb4]"
  unfolding md5_def chunks_two_blocks [OF collision_a_length] foldl_Cons foldl_Nil
    collision_a1_block collision_a2_block collision_tail_block
  by (simp add: le_bytes_4)

lemma file_hash_collision_a:
  "get_file_hash collision_a = ''79054025255fb1a26e4bc422aef54eb4''"
  unfolding get_file_hash_def md5_collision_a
  by (simp add: hexdigest_def hex_digit_def)

lemma md5_collision_b:
  "md5 collision_b
     = [0x79, 0x05, 0x40, 0x25, 0x25, 0x5f, 0xb1, 0xa2, 0x6e, 0x4b, 0xc4, 0x22, 0xae, 0xf5, 0x4e, 0xb4]"
  unfolding md5_def chunks_two_blocks [OF collision_b_length] foldl_Cons foldl_Nil
    collision_b1_block collision_b2_block collision_tail_block
  by (simp add: le_bytes_4)

lemma file_hash_collision_b:
  "get_file_hash collision_b = ''79054025255fb1a26e4bc422aef54eb4''"
  unfolding get_file_hash_def md5_collision_b
  by (simp add: hexdigest_def hex_digit_def)

lemma md5_empty:
  "md5 []
     = [0xd4, 0x1d, 0x8c, 0xd9, 0x8f, 0x00, 0xb2, 0x04, 0xe9, 0x80, 0x09, 0x98, 0xec, 0xf8, 0x42, 0x7e]"
  unfolding md5_def empty_chunks foldl_Cons foldl_Nil
    empty_block
  by (simp add: le_bytes_4)

lemma file_hash_empty:
  "get_file_hash [] = ''d41d8cd98f00b204e9800998ecf8427e''"
  unfolding get_file_hash_def md5_empty
  by (simp add: hexdigest_def hex_digit_def)

lemma md5_abc:
  "md5 (encode_utf8 ''abc'')
     = [0x90, 0x01, 0x50, 0x98, 0x3c, 0xd2, 0x4f, 0xb0, 0xd6, 0x96, 0x3f, 0x7d, 0x28, 0xe1, 0x7f, 0x72]"
  unfolding md5_def abc_chunks foldl_Cons foldl_Nil
    abc_block
  by (simp add: le_bytes_4)

lemma text_hash_abc:
  "get_text_hash ''abc'' = ''900150983cd24fb0d6963f7d28e17f72''"
  unfolding get_text_hash_def md5_abc
  by (simp add: hexdigest_def hex_digit_def)

lemma collision_differs:
  "collision_a \<noteq> collision_b"
proof
  assume "collision_a = collision_b"
  then have "collision_a ! 19 = collision_b ! 19"
    by simp
  then show False
    by (simp add: collision_a_def collision_b_def)
qed

text \<open>
  Claim C8, as the code has it. The fingerprint is a function of the payload alone, so
  equal payloads give equal fingerprints: it is the MD5 digest of the bytes (for a text,
  of its UTF-8 encoding) written as 32 lower-case hexadecimal digits,
  \<^verbatim>\<open>d41d8cd98f00b204e9800998ecf8427e\<close> for the empty payload and
  \<^verbatim>\<open>900150983cd24fb0d6963f7d28e17f72\<close> for the text \<^verbatim>\<open>abc\<close>. It is not injective: the two
  different 128-byte payloads \<open>collision_a\<close> and \<open>collision_b\<close> both have the fingerprint
  \<^verbatim>\<open>79054025255fb1a26e4bc422aef54eb4\<close>, and two different texts share a fingerprint too.
\<close>

theorem fingerprint_deterministic_not_injective:
  "(P1 = P2 \<longrightarrow> get_file_hash P1 = get_file_hash P2)
   \<and> (T1 = T2 \<longrightarrow> get_text_hash T1 = get_text_hash T2)
   \<and> get_text_hash T1 = get_file_hash (encode_utf8 T1)
   \<and> length (get_file_hash P1) = 32 \<and> set (get_file_hash P1) \<subseteq> set ''0123456789abcdef''
   \<and> get_file_hash [] = ''d41d8cd98f00b204e9800998ecf8427e''
   \<and> get_text_hash ''abc'' = ''900150983cd24fb0d6963f7d28e17f72''
   \<and> collision_a \<noteq> collision_b
   \<and> get_file_hash collision_a = ''79054025255fb1a26e4bc422aef54eb4''
   \<and> get_file_hash collision_b = ''79054025255fb1a26e4bc422aef54eb4''
   \<and> (\<exists>U1 U2. U1 \<noteq> U2 \<and> get_text_hash U1 = get_text_hash U2)"
proof -
  have "get_text_hash T1 = get_file_hash (encode_utf8 T1)"
    by (simp add: get_text_hash_def get_file_hash_def)
  moreover have "length (get_file_hash P1) = 32"
    by (simp add: get_file_hash_def hexdigest_length md5_length)
  moreover have "set (get_file_hash P1) \<subseteq> set ''0123456789abcdef''"
    unfolding get_file_hash_def by (rule hexdigest_chars)
  ultimately show ?thesis
    using file_hash_empty text_hash_abc collision_differs file_hash_collision_a
      file_hash_collision_b text_hash_collision
    by blast
qed

theorem fingerprint_deterministic_not_injective_witness:
  "take 64 collision_a @ drop 64 collision_a = collision_a
   \<and> get_file_hash (take 64 collision_a @ drop 64 collision_a) = get_file_hash collision_a
   \<and> get_file_hash collision_a = ''79054025255fb1a26e4bc422aef54eb4''
   \<and> length (get_file_hash (take 64 collision_a @ drop 64 collision_a)) = 32
   \<and> get_text_hash ''abc'' = get_file_hash (encode_utf8 ''abc'')
   \<and> encode_utf8 ''abc'' = [0x61, 0x62, 0x63]"
proof -
  have same: "take 64 collision_a @ drop 64 collision_a = collision_a"
    by (rule append_take_drop_id)
  show ?thesis
    using same encode_abc
      fingerprint_deterministic_not_injective
        [of "take 64 collision_a @ drop 64 collision_a" collision_a "''abc''" "''abc''"]
    by blast
qed

text \<open>
  The claim as stated asks for an injective fingerprint. The payloads \<open>collision_a\<close> and
  \<open>collision_b\<close> differ in six bytes and have the same fingerprint.
\<close>

theorem fingerprint_injective_counterexample:
  "collision_a \<noteq> collision_b \<and> get_file_hash collision_a = get_file_hash collision_b"
  using collision_differs file_hash_collision_a file_hash_collision_b by simp

section \<open>A failing user store is answered with 401\<close>

lemma find_user_db_error:
  assumes "(\<exists>x. get_database d = Inl x) \<or> (\<exists>x. list_collection_names d = Inl x)
           \<or> object_id d uid = InvalidId \<or> (\<exists>x. object_id d uid = OtherException x)
           \<or> (\<exists>oid x. object_id d uid = Oid oid \<and> find_one d oid = Inl x)"
  shows "find_user_by_id d uid = None"
  using assms
  by (auto simp: find_user_by_id_def split: sum.split oid_outcome.split option.split)

lemma find_user_result:
  "find_user_by_id d uid = None
   \<or> (\<exists>oid user. object_id d uid = Oid oid \<and> find_one d oid = Inr (Some user)
         \<and> find_user_by_id d uid = Some (dict_set user ''_id'' (PStr oid)))"
  by (auto simp: find_user_by_id_def split: sum.split oid_outcome.split option.split)

lemma upload_resume_no_user:
  assumes "origin req = Some orig" and "orig \<noteq> []" and "orig \<in> set origins"
    and "authorization req = Some auth"
    and "split_on CHR '' '' auth = first # token # rest" and "token \<noteq> []"
    and "verify_token token = Inr claims" and "truthy (dict_get claims ''userId'')"
    and "find_user_by_id d (dict_get claims ''userId'') = None"
  shows "upload_resume e d verify_token req s
           = (HTTPException 401 (error_detail ''User does not exist'' 401), s)"
proof -
  have "auth \<noteq> []" using assms(5) by auto
  then show ?thesis
    using assms by (simp add: upload_resume_def Let_def)
qed

text \<open>
  Claim C10. \<^verbatim>\<open>find_user_by_id\<close> returns \<^verbatim>\<open>None\<close> or the user document that
  \<^verbatim>\<open>find_one\<close> found, and never raises: a database error at any step, an invalid
  ObjectId string, or any other exception of \<^verbatim>\<open>ObjectId\<close> yields \<^verbatim>\<open>None\<close>. So a request
  that passes the origin and token checks gets 401 \<^verbatim>\<open>User does not exist\<close> when the
  lookup fails for any of these reasons.
\<close>

theorem find_user_by_id_never_raises:
  "(find_user_by_id d uid = None
    \<or> (\<exists>oid user. object_id d uid = Oid oid \<and> find_one d oid = Inr (Some user)
          \<and> find_user_by_id d uid = Some (dict_set user ''_id'' (PStr oid))))
   \<and> ((\<exists>x. get_database d = Inl x) \<or> (\<exists>x. list_collection_names d = Inl x)
        \<or> object_id d uid = InvalidId \<or> (\<exists>x. object_id d uid = OtherException x)
        \<or> (\<exists>oid x. object_id d uid = Oid oid \<and> find_one d oid = Inl x)
       \<longrightarrow> find_user_by_id d uid = None)
   \<and> (origin req = Some orig \<and> orig \<noteq> [] \<and> orig \<in> set origins
        \<and> authorization req = Some auth
        \<and> split_on CHR '' '' auth = first # token # rest \<and> token \<noteq> []
        \<and> verify_token token = Inr claims \<and> uid = dict_get claims ''userId'' \<and> truthy uid
        \<and> ((\<exists>x. get_database d = Inl x) \<or> (\<exists>x. list_collection_names d = Inl x)
             \<or> object_id d uid = InvalidId \<or> (\<exists>x. object_id d uid = OtherException x)
             \<or> (\<exists>oid x. object_id d uid = Oid oid \<and> find_one d oid = Inl x))
       \<longrightarrow> upload_resume e d verify_token req s
             = (HTTPException 401 (error_detail ''User does not exist'' 401), s))"
proof (intro conjI impI)
  show "find_user_by_id d uid = None
    \<or> (\<exists>oid user. object_id d uid = Oid oid \<and> find_one d oid = Inr (Some user)
          \<and> find_user_by_id d uid = Some (dict_set user ''_id'' (PStr oid)))"
    by (rule find_user_result)
next
  assume "(\<exists>x. get_database d = Inl x) \<or> (\<exists>x. list_collection_names d = Inl x)
        \<or> object_id d uid = InvalidId \<or> (\<exists>x. object_id d uid = OtherException x)
        \<or> (\<exists>oid x. object_id d uid = Oid oid \<and> find_one d oid = Inl x)"
  then show "find_user_by_id d uid = None"
    by (rule find_user_db_error)
next
  assume a: "origin req = Some orig \<and> orig \<noteq> [] \<and> orig \<in> set origins
        \<and> authorization req = Some auth
        \<and> split_on CHR '' '' auth = first # token # rest \<and> token \<noteq> []
        \<and> verify_token token = Inr claims \<and> uid = dict_get claims ''userId'' \<and> truthy uid
        \<and> ((\<exists>x. get_database d = Inl x) \<or> (\<exists>x. list_collection_names d = Inl x)
             \<or> object_id d uid = InvalidId \<or> (\<exists>x. object_id d uid = OtherException x)
             \<or> (\<exists>oid x. object_id d uid = Oid oid \<and> find_one d oid = Inl x))"
  then have dis: "(\<exists>x. get_database d = Inl x) \<or> (\<exists>x. list_collection_names d = Inl x)
        \<or> object_id d uid = InvalidId \<or> (\<exists>x. object_id d uid = OtherException x)
        \<or> (\<exists>oid x. object_id d uid = Oid oid \<and> find_one d oid = Inl x)"
    by blast
  have none: "find_user_by_id d uid = None"
    by (rule find_user_db_error [OF dis])
  from a have u: "uid = dict_get claims ''userId''" by simp
  show "upload_resume e d verify_token req s
          = (HTTPException 401 (error_detail ''User does not exist'' 401), s)"
  proof (rule upload_resume_no_user)
    show "origin req = Some orig" using a by simp
    show "orig \<noteq> []" using a by simp
    show "orig \<in> set origins" using a by simp
    show "authorization req = Some auth" using a by simp
    show "split_on CHR '' '' auth = first # token # rest" using a by simp
    show "token \<noteq> []" using a by simp
    show "verify_token token = Inr claims" using a by simp
    show "truthy (dict_get claims ''userId'')" using a u by simp
    show "find_user_by_id d (dict_get claims ''userId'') = None" using none u by simp
  qed
qed

theorem find_user_by_id_never_raises_witness:
  "get_database down_db = Inl ''connection refused''
   \<and> find_user_by_id down_db (PStr ''64b7f0c2a1d3e4f5a6b7c8d9'') = None
   \<and> origin good_request = Some ''http://localhost:5173''
   \<and> ''http://localhost:5173'' \<in> set origins
   \<and> split_on CHR '' '' ''Bearer abc'' = [''Bearer'', ''abc'']
   \<and> upload_resume quiet_env down_db accept_token good_request empty_state
       = (HTTPException 401 (error_detail ''User does not exist'' 401), empty_state)"
proof -
  let ?uid = "PStr ''64b7f0c2a1d3e4f5a6b7c8d9''"
  let ?claims = "[(''userId'', ?uid)]"
  note inst = find_user_by_id_never_raises [of down_db "?uid" good_request
      "''http://localhost:5173''" "''Bearer abc''" "''Bearer''" "''abc''" "[]"
      accept_token "?claims" quiet_env empty_state]
  have db: "get_database down_db = Inl ''connection refused''"
    by (simp add: down_db_def)
  then have dbx: "\<exists>x. get_database down_db = Inl x" by blast
  have none: "find_user_by_id down_db ?uid = None"
    using inst dbx by blast
  have o: "origin good_request = Some ''http://localhost:5173''"
    by (simp add: good_request_def)
  have au: "authorization good_request = Some ''Bearer abc''"
    by (simp add: good_request_def)
  have mem: "''http://localhost:5173'' \<in> set origins"
    by (simp add: origins_def)
  have ne: "''http://localhost:5173'' \<noteq> []" by simp
  have sp: "split_on CHR '' '' ''Bearer abc'' = [''Bearer'', ''abc'']"
    by simp
  have tne: "''abc'' \<noteq> []" by simp
  have tok: "accept_token ''abc'' = Inr ?claims"
    by (simp add: accept_token_def)
  have u: "?uid = dict_get ?claims ''userId''"
    by (simp add: dict_get_def)
  have tr: "truthy ?uid" by simp
  have resp: "upload_resume quiet_env down_db accept_token good_request empty_state
       = (HTTPException 401 (error_detail ''User does not exist'' 401), empty_state)"
    using inst o ne mem au sp tne tok u tr dbx by blast
  show ?thesis
    using db none o mem sp resp by blast
qed

section \<open>The OCR fallback of the PDF extractor\<close>

lemma get_after_set:
  "fst (get_from_cache e k (set_cache e k v s)) =
     (if redis_client s \<and> redis_raises e (redis_ops s) \<and> \<not> redis_raises e (Suc (redis_ops s))
      then (case redis_store s k of Some w \<Rightarrow> w | None \<Rightarrow> v)
      else v)"
  by (simp add: get_from_cache_def Let_def set_cache_redis_client set_cache_redis_ops
      set_cache_redis_store set_cache_dict_get split: option.split)

lemma get_from_cache_log_event:
  "fst (get_from_cache e k (log_event ev s)) = fst (get_from_cache e k s)"
  by (rule get_from_cache_cong) (simp_all add: log_event_simps)

lemma extract_text_from_pdf_eq:
  assumes "pdf_pages_text e c = Inr pages"
  shows "extract_text_from_pdf e c s =
     (let text = concat (map (\<lambda>page. case page of None \<Rightarrow> [] | Some t \<Rightarrow> t) pages);
          key = ''pdf_ocr:'' @ get_file_hash c;
          g = get_from_cache e key (log_event CallPdfText s) in
      if strip text = [] then
        (if fst g \<noteq> PNone then (Inr (fst g), snd g)
         else (case pdf_pages_ocr e c of
                 Inl x \<Rightarrow> (Inl x, log_event CallPdfOcr (snd g))
               | Inr opages \<Rightarrow>
                   (Inr (PStr (concat (map (\<lambda>result. join newline result @ newline) opages))),
                    set_cache e key
                      (PStr (concat (map (\<lambda>result. join newline result @ newline) opages)))
                      (log_event CallPdfOcr (snd g)))))
      else (Inr (PStr text), log_event CallPdfText s))"
  using assms
  by (simp add: extract_text_from_pdf_def extract_text_from_pdf_with_ocr_def Let_def
      case_prod_beta split: sum.split)

text \<open>
  Claim C7, as the code has it. For PDF bytes whose text layer can be read, the
  recognition pass runs exactly when the concatenated page text is empty or whitespace
  only and the lookup under \<^verbatim>\<open>pdf_ocr:<fingerprint>\<close> finds nothing; a text layer with
  content is returned untouched, with no cache access. When recognition runs, its text is
  returned and stored under that key. A following call on the same bytes then runs no
  recognition and returns the cached entry, provided the remote tier does not hold
  \<^verbatim>\<open>None\<close> under the key; the entry is the text just stored whenever the remote tier
  is disabled, or its write did not raise, or its read raises, or it holds no other entry
  under the key.
\<close>

theorem pdf_ocr_fallback:
  assumes pages: "pdf_pages_text e c = Inr pages"
    and tx: "text = concat (map (\<lambda>page. case page of None \<Rightarrow> [] | Some t \<Rightarrow> t) pages)"
    and key: "key = ''pdf_ocr:'' @ get_file_hash c"
    and hit: "hit = fst (get_from_cache e key (log_event CallPdfText s))"
    and r: "r = extract_text_from_pdf e c s"
    and r2: "r2 = extract_text_from_pdf e c (snd r)"
  shows "(strip text \<noteq> [] \<longrightarrow> r = (Inr (PStr text), log_event CallPdfText s))
       \<and> (strip text = [] \<and> hit \<noteq> PNone \<longrightarrow>
            fst r = Inr hit \<and> calls (snd r) = calls s @ [CallPdfText])
       \<and> (strip text = [] \<and> hit = PNone \<longrightarrow>
            calls (snd r) = calls s @ [CallPdfText, CallPdfOcr])
       \<and> (strip text = [] \<and> hit = PNone \<and> pdf_pages_ocr e c = Inr opages
            \<and> ocr = concat (map (\<lambda>result. join newline result @ newline) opages) \<longrightarrow>
            fst r = Inr (PStr ocr)
            \<and> dict_get (cache (snd r)) key = PStr ocr
            \<and> (redis_store s key \<noteq> Some PNone \<longrightarrow>
                 (\<exists>v. v \<noteq> PNone \<and> fst r2 = Inr v)
                 \<and> calls (snd r2) = calls (snd r) @ [CallPdfText])
            \<and> (\<not> redis_client s \<or> \<not> redis_raises e (Suc (redis_ops s))
                 \<or> redis_raises e (Suc (Suc (redis_ops s)))
                 \<or> redis_store s key = None \<or> redis_store s key = Some (PStr ocr) \<longrightarrow>
                 fst r2 = Inr (PStr ocr)
                 \<and> calls (snd r2) = calls (snd r) @ [CallPdfText]))"
proof -
  let ?g = "get_from_cache e key (log_event CallPdfText s)"
  note eq = extract_text_from_pdf_eq [OF pages]
  have a: "r = (Inr (PStr text), log_event CallPdfText s)" if "strip text \<noteq> []"
    using that unfolding r eq [of s] Let_def tx by simp
  have b: "fst r = Inr hit \<and> calls (snd r) = calls s @ [CallPdfText]"
    if "strip text = []" and "hit \<noteq> PNone"
    using that unfolding r eq [of s] Let_def tx hit key
    by (simp add: get_from_cache_fields log_event_simps)
  have c1: "calls (snd r) = calls s @ [CallPdfText, CallPdfOcr]"
    if "strip text = []" and "hit = PNone"
    using that unfolding r eq [of s] Let_def tx hit key
    by (simp add: get_from_cache_fields log_event_simps set_cache_calls split: sum.split)
  have d: "fst r = Inr (PStr ocr) \<and> dict_get (cache (snd r)) key = PStr ocr
            \<and> (redis_store s key \<noteq> Some PNone \<longrightarrow>
                 (\<exists>v. v \<noteq> PNone \<and> fst r2 = Inr v)
                 \<and> calls (snd r2) = calls (snd r) @ [CallPdfText])
            \<and> (\<not> redis_client s \<or> \<not> redis_raises e (Suc (redis_ops s))
                 \<or> redis_raises e (Suc (Suc (redis_ops s)))
                 \<or> redis_store s key = None \<or> redis_store s key = Some (PStr ocr) \<longrightarrow>
                 fst r2 = Inr (PStr ocr)
                 \<and> calls (snd r2) = calls (snd r) @ [CallPdfText])"
    if blank: "strip text = []" and miss: "hit = PNone"
      and op: "pdf_pages_ocr e c = Inr opages"
      and ocr: "ocr = concat (map (\<lambda>result. join newline result @ newline) opages)"
  proof -
    let ?s3 = "log_event CallPdfOcr (snd ?g)"
    have rv: "r = (Inr (PStr ocr), set_cache e key (PStr ocr) ?s3)"
      using blank miss unfolding r eq [of s] Let_def tx hit key ocr op by simp
    have s3: "redis_client ?s3 = redis_client s" "redis_store ?s3 = redis_store s"
      "redis_ops ?s3 = (if redis_client s then Suc (redis_ops s) else redis_ops s)"
      by (simp_all add: get_from_cache_fields log_event_simps)
    let ?look = "fst (get_from_cache e key (log_event CallPdfText (snd r)))"
    have look: "?look =
       (if redis_client s \<and> redis_raises e (Suc (redis_ops s))
           \<and> \<not> redis_raises e (Suc (Suc (redis_ops s)))
        then (case redis_store s key of Some w \<Rightarrow> w | None \<Rightarrow> PStr ocr)
        else PStr ocr)"
      unfolding rv by (simp add: get_from_cache_log_event get_after_set s3)
    have second: "fst r2 = Inr ?look \<and> calls (snd r2) = calls (snd r) @ [CallPdfText]"
      if "?look \<noteq> PNone"
      using that blank unfolding r2 eq [of "snd r"] Let_def tx key
      by (simp add: get_from_cache_fields log_event_simps)
    have nn: "?look \<noteq> PNone" if "redis_store s key \<noteq> Some PNone"
      using that unfolding look by (auto split: option.split)
    have same: "?look = PStr ocr"
      if "\<not> redis_client s \<or> \<not> redis_raises e (Suc (redis_ops s))
                 \<or> redis_raises e (Suc (Suc (redis_ops s)))
                 \<or> redis_store s key = None \<or> redis_store s key = Some (PStr ocr)"
      using that unfolding look by auto
    have p1: "fst r = Inr (PStr ocr)" unfolding rv by simp
    have p2: "dict_get (cache (snd r)) key = PStr ocr"
      unfolding rv by (simp add: set_cache_dict_get)
    have p3: "(\<exists>v. v \<noteq> PNone \<and> fst r2 = Inr v)
                 \<and> calls (snd r2) = calls (snd r) @ [CallPdfText]"
      if "redis_store s key \<noteq> Some PNone"
      using second [OF nn [OF that]] nn [OF that] by blast
    have p4: "fst r2 = Inr (PStr ocr) \<and> calls (snd r2) = calls (snd r) @ [CallPdfText]"
      if h: "\<not> redis_client s \<or> \<not> redis_raises e (Suc (redis_ops s))
                 \<or> redis_raises e (Suc (Suc (redis_ops s)))
                 \<or> redis_store s key = None \<or> redis_store s key = Some (PStr ocr)"
    proof -
      have "?look \<noteq> PNone" using same [OF h] by simp
      from second [OF this] same [OF h] show ?thesis by simp
    qed
    show ?thesis using p1 p2 p3 p4 by blast
  qed
  show ?thesis using a b c1 d by blast
qed

lemma blank_scan: "strip (concat (map (\<lambda>page. case page of None \<Rightarrow> [] | Some t \<Rightarrow> t)
                      [None, Some ''  ''])) = []"
  by (simp add: strip_def is_space_def Let_def)

theorem pdf_ocr_fallback_witness:
  "pdf_pages_text scan_env pdf_bytes = Inr [None, Some ''  '']
   \<and> pdf_pages_ocr scan_env pdf_bytes = Inr [[''Jane Doe'', ''Engineer'']]
   \<and> fst (get_from_cache scan_env (''pdf_ocr:'' @ get_file_hash pdf_bytes)
            (log_event CallPdfText empty_state)) = PNone
   \<and> \<not> redis_client empty_state
   \<and> fst (extract_text_from_pdf scan_env pdf_bytes empty_state)
       = Inr (PStr (concat (map (\<lambda>result. join newline result @ newline)
                     [[''Jane Doe'', ''Engineer'']])))
   \<and> calls (snd (extract_text_from_pdf scan_env pdf_bytes empty_state))
       = calls empty_state @ [CallPdfText, CallPdfOcr]
   \<and> fst (extract_text_from_pdf scan_env pdf_bytes
            (snd (extract_text_from_pdf scan_env pdf_bytes empty_state)))
       = Inr (PStr (concat (map (\<lambda>result. join newline result @ newline)
                     [[''Jane Doe'', ''Engineer'']])))
   \<and> calls (snd (extract_text_from_pdf scan_env pdf_bytes
            (snd (extract_text_from_pdf scan_env pdf_bytes empty_state))))
       = calls (snd (extract_text_from_pdf scan_env pdf_bytes empty_state)) @ [CallPdfText]
   \<and> pdf_pages_text retry_env pdf_bytes = Inr [Some ''Jane Doe'']
   \<and> extract_text_from_pdf retry_env pdf_bytes empty_state
       = (Inr (PStr ''Jane Doe''), log_event CallPdfText empty_state)"
proof -
  have pages: "pdf_pages_text scan_env pdf_bytes = Inr [None, Some ''  '']"
    by (simp add: scan_env_def quiet_env_def)
  have op: "pdf_pages_ocr scan_env pdf_bytes = Inr [[''Jane Doe'', ''Engineer'']]"
    by (simp add: scan_env_def quiet_env_def)
  have miss: "fst (get_from_cache scan_env (''pdf_ocr:'' @ get_file_hash pdf_bytes)
            (log_event CallPdfText empty_state)) = PNone"
    by (rule empty_state_miss)
  have off: "\<not> redis_client empty_state"
    by (simp add: empty_state_def)
  have pages': "pdf_pages_text retry_env pdf_bytes = Inr [Some ''Jane Doe'']"
    by (simp add: retry_env_def quiet_env_def)
  have full: "strip (concat (map (\<lambda>page. case page of None \<Rightarrow> [] | Some t \<Rightarrow> t)
                      [Some ''Jane Doe''])) \<noteq> []"
    using blank_jane by simp
  note scanned = pdf_ocr_fallback [OF pages refl refl refl refl refl,
      where s = empty_state and opages = "[[''Jane Doe'', ''Engineer'']]"
        and ocr = "concat (map (\<lambda>result. join newline result @ newline)
                     [[''Jane Doe'', ''Engineer'']])"]
  note layered = pdf_ocr_fallback [OF pages' refl refl refl refl refl,
      where s = empty_state]
  show ?thesis
    using pages op miss off pages' full blank_scan scanned layered
    by simp
qed

text \<open>
  The claim as stated fails when the remote tier is unreachable during the first call and
  back for the second. The first call finds nothing, runs the recognition and can store
  its text in the in-process tier only; the second call reads the remote tier first and
  returns the older text held there, not the text the first call cached.
\<close>

theorem pdf_ocr_stale_counterexample:
  "pdf_pages_text outage_env pdf_bytes = Inr [None, Some ''  '']
   \<and> fst (extract_text_from_pdf outage_env pdf_bytes stale_ocr_state)
       = Inr (PStr (''Jane Doe'' @ newline @ ''Engineer'' @ newline))
   \<and> calls (snd (extract_text_from_pdf outage_env pdf_bytes stale_ocr_state))
       = [CallPdfText, CallPdfOcr]
   \<and> dict_get (cache (snd (extract_text_from_pdf outage_env pdf_bytes stale_ocr_state)))
         (''pdf_ocr:'' @ get_file_hash pdf_bytes)
       = PStr (''Jane Doe'' @ newline @ ''Engineer'' @ newline)
   \<and> fst (extract_text_from_pdf outage_env pdf_bytes
            (snd (extract_text_from_pdf outage_env pdf_bytes stale_ocr_state)))
       = Inr (PStr ''Jane Roe'')"
  by (simp add: extract_text_from_pdf_def extract_text_from_pdf_with_ocr_def
      get_from_cache_def set_cache_def remote_setex_def log_event_def dict_get_def Let_def
      max_cache_size_def outage_env_def scan_env_def quiet_env_def stale_ocr_state_def
      empty_state_def strip_def is_space_def newline_def)

end
